theory Spec2Isabelle
  imports Complex_Main "HOL-Library.Char_ord" "HOL-Library.List_Lexorder"
begin

section \<open>GPU metrics reporter (linux/main.py): a shallow embedding\<close>

text \<open>
  The script samples per-GPU metrics from the nvidia-smi tool and reports them to the
  monitoring backend every \<open>FREQUENCY\<close> seconds. The embedding follows the source
  function by function. What the script receives from outside (the tool's behaviour,
  the metadata server's answers, the clock, the backend's answer) is an argument of
  the model; what it does to the outside (lines printed to standard error, calls of
  the backend, calls of the tool, sleeps) is recorded in a \<open>world\<close> record that is
  passed along.

  Python floats are modelled as rationals, computed exactly: the rounding error of
  IEEE doubles, infinities and NaN are outside the model. Text is ASCII.
\<close>

subsection \<open>Exceptions\<close>

datatype py_error =
    KeyError string
  | ValueError
  | ZeroDivisionError
  | IndexError
  | FileNotFoundError
  | CalledProcessError string string
  | TimeoutExpired
  | ConnectionError string
  | OtherError string

subsection \<open>Strings: \<open>str.split\<close>, \<open>str.splitlines\<close>, \<open>float\<close>, \<open>round\<close>, \<open>int\<close>\<close>

text \<open>\<open>s.split(sep)\<close> for a one-character separator: the result is never empty.\<close>

fun split_on :: "char \<Rightarrow> string \<Rightarrow> string list" where
  "split_on sep [] = [[]]"
| "split_on sep (c # cs) =
     (if c = sep then [] # split_on sep cs
      else (case split_on sep cs of
              [] \<Rightarrow> [[c]]
            | h # t \<Rightarrow> (c # h) # t))"

text \<open>
  \<open>s.splitlines()\<close> on ASCII text. The line boundaries are LF, CR, CR LF, VT, FF, FS,
  GS and RS; a final line without a boundary is kept, and no empty line is added
  after a final boundary. The flag says that the previous character was a CR, whose
  LF is then skipped.
\<close>

definition is_linebreak :: "char \<Rightarrow> bool" where
  "is_linebreak c = ((of_char c :: nat) \<in> {10, 11, 12, 13, 28, 29, 30})"

fun splitlines_from :: "bool \<Rightarrow> string \<Rightarrow> string \<Rightarrow> string list" where
  "splitlines_from prev_cr cur [] = (if cur = [] then [] else [rev cur])"
| "splitlines_from prev_cr cur (c # cs) =
     (if prev_cr \<and> (of_char c :: nat) = 10 then splitlines_from False cur cs
      else if is_linebreak c then rev cur # splitlines_from ((of_char c :: nat) = 13) [] cs
      else splitlines_from False (c # cur) cs)"

definition splitlines :: "string \<Rightarrow> string list" where
  "splitlines s = splitlines_from False [] s"

text \<open>
  \<open>float(s)\<close> on the decimal notation the tool prints with \<open>nounits\<close>: white space
  around, an optional sign, digits with an optional fraction. \<open>None\<close> is Python's
  ValueError. Exponents, underscores, \<open>inf\<close> and \<open>nan\<close>, which \<open>float\<close> also reads,
  are outside the model.
\<close>

definition py_isspace :: "char \<Rightarrow> bool" where
  "py_isspace c = ((of_char c :: nat) \<in> {9, 10, 11, 12, 13, 28, 29, 30, 31, 32})"

definition is_digit :: "char \<Rightarrow> bool" where
  "is_digit c = (48 \<le> (of_char c :: nat) \<and> (of_char c :: nat) \<le> 57)"

definition digits_val :: "string \<Rightarrow> nat" where
  "digits_val ds = foldl (\<lambda>acc c. acc * 10 + (of_char c - 48)) 0 ds"

definition strip :: "string \<Rightarrow> string" where
  "strip s = rev (dropWhile py_isspace (rev (dropWhile py_isspace s)))"

definition py_float :: "string \<Rightarrow> rat option" where
  "py_float s =
     (let t = strip s;
          neg = (t \<noteq> [] \<and> hd t = CHR ''-'');
          u = (if t \<noteq> [] \<and> (hd t = CHR ''-'' \<or> hd t = CHR ''+'') then tl t else t);
          ip = takeWhile is_digit u;
          r1 = dropWhile is_digit u;
          has_dot = (r1 \<noteq> [] \<and> hd r1 = CHR ''.'');
          fp = (if has_dot then takeWhile is_digit (tl r1) else []);
          r2 = (if has_dot then dropWhile is_digit (tl r1) else r1)
      in if r2 \<noteq> [] \<or> (ip = [] \<and> fp = []) then None
         else Some ((if neg then - 1 else 1) *
                    (of_nat (digits_val ip) + of_nat (digits_val fp) / 10 ^ length fp)))"

text \<open>\<open>round(x)\<close> of a float: to the nearest integer, a tie to the even one.\<close>

definition py_round :: "rat \<Rightarrow> int" where
  "py_round x =
     (let f = \<lfloor>x\<rfloor>; d = x - of_int f
      in if d < 1 / 2 then f
         else if 1 / 2 < d then f + 1
         else if even f then f else f + 1)"

text \<open>\<open>int(x)\<close> of a float: truncation towards zero.\<close>

definition py_int :: "rat \<Rightarrow> int" where
  "py_int x = (if 0 \<le> x then \<lfloor>x\<rfloor> else \<lceil>x\<rceil>)"

text \<open>\<open>xs[i]\<close> for a non-negative index: IndexError out of range.\<close>

definition py_index :: "'a list \<Rightarrow> nat \<Rightarrow> py_error + 'a" where
  "py_index xs i = (if i < length xs then Inr (xs ! i) else Inl IndexError)"

subsection \<open>Dictionaries\<close>

text \<open>
  A dict is an association list in insertion order. \<open>d[k] = v\<close> replaces the value of
  a key that is present, in place, and appends a new key; \<open>d[k]\<close> on a plain dict
  raises KeyError for a missing key.
\<close>

fun dict_set :: "('k \<times> 'v) list \<Rightarrow> 'k \<Rightarrow> 'v \<Rightarrow> ('k \<times> 'v) list" where
  "dict_set [] k v = [(k, v)]"
| "dict_set ((k', v') # d) k v =
     (if k' = k then (k, v) # d else (k', v') # dict_set d k v)"

definition dict_get :: "(string \<times> 'v) list \<Rightarrow> string \<Rightarrow> py_error + 'v" where
  "dict_get d k = (case map_of d k of None \<Rightarrow> Inl (KeyError k) | Some v \<Rightarrow> Inr v)"

type_synonym metrics = "(string \<times> rat) list"
type_synonym MetricsData = "(string list \<times> metrics) list"

subsection \<open>Constants of the module\<close>

definition FREQUENCY :: nat where
  "FREQUENCY = 10"

definition NVIDIA_SMI_BIN :: string where
  "NVIDIA_SMI_BIN = ''nvidia-smi''"

definition METRICS :: "(string \<times> string) list" where
  "METRICS =
     [(''utilization.gpu'', ''instance/gpu/utilization''),
      (''utilization.memory'', ''instance/gpu/memory_utilization''),
      (''memory.total'', ''instance/gpu/memory_total''),
      (''memory.used'', ''instance/gpu/memory_used''),
      (''memory.free'', ''instance/gpu/memory_free''),
      (''temperature.gpu'', ''instance/gpu/temperature'')]"

definition MEM_USED_PERCENT :: string where
  "MEM_USED_PERCENT = ''instance/gpu/memory_used_percent''"

text \<open>\<open>sorted(METRICS.keys())\<close>\<close>

definition sorted_keys :: "string list" where
  "sorted_keys = sort (map fst METRICS)"

subsection \<open>The outside world\<close>

text \<open>
  One run of the tool, as \<open>subprocess.run\<close> sees it: the binary is not found, the tool
  exits with a return code, its standard output and its standard error (decoded), or
  it never exits.
\<close>

datatype tool_behaviour =
    NotFound
  | Exits int string string
  | Hangs

record run_call =
  run_args :: "string list"
  run_check :: bool
  run_timeout :: "rat option"

record completed_process =
  returncode :: int
  stdout :: string
  stderr :: string

text \<open>
  \<open>subprocess.run\<close>: \<open>None\<close> is a call that never returns. Without a timeout the call
  waits for the tool; with \<open>check=True\<close> a non-zero return code raises
  CalledProcessError, which carries the output.
\<close>

definition subprocess_run :: "run_call \<Rightarrow> tool_behaviour \<Rightarrow> (py_error + completed_process) option" where
  "subprocess_run call tool =
     (case tool of
        NotFound \<Rightarrow> Some (Inl FileNotFoundError)
      | Hangs \<Rightarrow> (case run_timeout call of None \<Rightarrow> None | Some t \<Rightarrow> Some (Inl TimeoutExpired))
      | Exits rc out err \<Rightarrow>
          (if run_check call \<and> rc \<noteq> 0 then Some (Inl (CalledProcessError out err))
           else Some (Inr \<lparr>returncode = rc, stdout = out, stderr = err\<rparr>)))"

text \<open>The backend's answer to \<open>create_time_series\<close>: accepted, or an exception with its text.\<close>

datatype publish_outcome = PublishOk | PublishFails string

record point =
  end_seconds :: int
  end_nanos :: int
  double_value :: rat

record time_series =
  resource_type :: string
  resource_labels :: "(string \<times> string) list"
  metric_type :: string
  metric_labels :: "(string \<times> string) list"
  points :: "point list"

record backend_call =
  call_name :: string
  call_series :: "time_series list"
  call_outcome :: publish_outcome

record world =
  stderr_lines :: "string list"
  backend_calls :: "backend_call list"
  tool_calls :: "run_call list"
  sleeps :: "nat list"

definition print_stderr :: "string \<Rightarrow> world \<Rightarrow> world" where
  "print_stderr s w = w\<lparr>stderr_lines := stderr_lines w @ [s]\<rparr>"

subsection \<open>\<open>get_instance_params\<close>\<close>

text \<open>
  The two arguments are the outcomes of the two \<open>requests.get\<close> calls: an exception or
  the text of the response. The second request is made only when the zone has been
  parsed.
\<close>

definition get_instance_params ::
  "py_error + string \<Rightarrow> py_error + string \<Rightarrow> py_error + (string \<times> string \<times> string)" where
  "get_instance_params zone_response id_response =
     (case zone_response of
        Inl e \<Rightarrow> Inl e
      | Inr data \<Rightarrow>
          (case py_index (split_on CHR ''/'' data) 3 of
             Inl e \<Rightarrow> Inl e
           | Inr zone \<Rightarrow>
               (case py_index (split_on CHR ''/'' data) 1 of
                  Inl e \<Rightarrow> Inl e
                | Inr project_id \<Rightarrow>
                    (case id_response of
                       Inl e \<Rightarrow> Inl e
                     | Inr instance_id \<Rightarrow> Inr (project_id, zone, instance_id)))))"

subsection \<open>\<open>report_metrics\<close>\<close>

definition base_series :: "string \<Rightarrow> string \<Rightarrow> string \<Rightarrow> rat \<Rightarrow> time_series" where
  "base_series project_id zone instance_id now =
     (let seconds = py_int now;
          nanos = py_int ((now - of_int seconds) * 10 ^ 9)
      in \<lparr>resource_type = ''gce_instance'',
          resource_labels =
            [(''instance_id'', instance_id), (''zone'', zone), (''project_id'', project_id)],
          metric_type = [],
          metric_labels = [],
          points = [\<lparr>end_seconds = seconds, end_nanos = nanos, double_value = 0\<rparr>]\<rparr>)"

text \<open>
  The value of one point: the derived percentage for \<open>MEM_USED_PERCENT\<close>, the sample
  of the key otherwise. The lookups are evaluated left to right, then the division.
\<close>

definition metric_value :: "metrics \<Rightarrow> string \<Rightarrow> string \<Rightarrow> py_error + rat" where
  "metric_value ms smi_metric gcp_metric =
     (if gcp_metric = MEM_USED_PERCENT then
        (case dict_get ms ''memory.used'' of
           Inl e \<Rightarrow> Inl e
         | Inr mem_used \<Rightarrow>
             (case dict_get ms ''memory.total'' of
                Inl e \<Rightarrow> Inl e
              | Inr mem_total \<Rightarrow>
                  (if mem_total = 0 then Inl ZeroDivisionError
                   else Inr (of_int (py_round (mem_used / mem_total * 100))))))
      else dict_get ms smi_metric)"

definition new_series :: "time_series \<Rightarrow> string \<Rightarrow> string \<Rightarrow> string \<Rightarrow> rat \<Rightarrow> time_series" where
  "new_series ts gpu_type gpu_bus_id gcp_metric v =
     ts\<lparr>points := (case points ts of [] \<Rightarrow> [] | p # ps \<Rightarrow> p\<lparr>double_value := v\<rparr> # ps),
        metric_type := ''custom.googleapis.com/'' @ gcp_metric,
        metric_labels := [(''gpu_type'', gpu_type), (''gpu_bus_id'', gpu_bus_id)]\<rparr>"

text \<open>\<open>itertools.chain(METRICS.items(), (('', MEM_USED_PERCENT),))\<close>\<close>

definition all_metrics :: "(string \<times> string) list" where
  "all_metrics = METRICS @ [([], MEM_USED_PERCENT)]"

text \<open>The inner loop, over the metrics of one device.\<close>

fun metric_loop ::
  "time_series \<Rightarrow> string \<Rightarrow> string \<Rightarrow> metrics \<Rightarrow> (string \<times> string) list \<Rightarrow>
   time_series list \<Rightarrow> py_error + time_series list" where
  "metric_loop ts gpu_type gpu_bus_id ms [] series = Inr series"
| "metric_loop ts gpu_type gpu_bus_id ms ((smi_metric, gcp_metric) # rest) series =
     (case metric_value ms smi_metric gcp_metric of
        Inl e \<Rightarrow> Inl e
      | Inr v \<Rightarrow>
          metric_loop ts gpu_type gpu_bus_id ms rest
            (series @ [new_series ts gpu_type gpu_bus_id gcp_metric v]))"

text \<open>
  The outer loop, over the devices. The key of a device is unpacked into two names:
  a key of another length raises ValueError.
\<close>

fun device_loop ::
  "time_series \<Rightarrow> MetricsData \<Rightarrow> time_series list \<Rightarrow> py_error + time_series list" where
  "device_loop ts [] series = Inr series"
| "device_loop ts ((key, ms) # rest) series =
     (case key of
        [gpu_type, gpu_bus_id] \<Rightarrow>
          (case metric_loop ts gpu_type gpu_bus_id ms all_metrics series of
             Inl e \<Rightarrow> Inl e
           | Inr series' \<Rightarrow> device_loop ts rest series')
      | _ \<Rightarrow> Inl ValueError)"

text \<open>
  The call of the backend is the only statement in the \<open>try\<close>: its exception is printed
  and dropped.
\<close>

definition report_metrics ::
  "MetricsData \<Rightarrow> string \<Rightarrow> string \<Rightarrow> string \<Rightarrow> rat \<Rightarrow> publish_outcome \<Rightarrow> world \<Rightarrow>
   py_error + world" where
  "report_metrics vals project_id zone instance_id now backend w =
     (let ts = base_series project_id zone instance_id now;
          project_name = ''projects/'' @ project_id
      in case device_loop ts vals [] of
           Inl e \<Rightarrow> Inl e
         | Inr series \<Rightarrow>
             (let w1 = w\<lparr>backend_calls := backend_calls w @
                           [\<lparr>call_name = project_name, call_series = series,
                             call_outcome = backend\<rparr>]\<rparr>
              in case backend of
                   PublishOk \<Rightarrow> Inr w1
                 | PublishFails err \<Rightarrow>
                     Inr (print_stderr err (print_stderr ''Encountered an error:'' w1))))"

subsection \<open>\<open>get_metrics\<close>\<close>

text \<open>\<open>sep.join(xs)\<close>\<close>

fun join_with :: "string \<Rightarrow> string list \<Rightarrow> string" where
  "join_with sep [] = []"
| "join_with sep [x] = x"
| "join_with sep (x # y # ys) = x @ sep @ join_with sep (y # ys)"

text \<open>The call of the tool in \<open>get_metrics\<close>: no \<open>check\<close>, no \<open>timeout\<close>.\<close>

definition smi_query_call :: run_call where
  "smi_query_call =
     \<lparr>run_args = [NVIDIA_SMI_BIN,
                  ''--query-gpu='' @ join_with '','' ([''gpu_name'', ''gpu_bus_id''] @ sorted_keys),
                  ''--format=csv,noheader,nounits''],
      run_check = False,
      run_timeout = None\<rparr>"

text \<open>
  The dict comprehension over \<open>zip(sorted(METRICS.keys()), map(float, line[2:]))\<close>.
  \<open>map\<close> is lazy and \<open>zip\<close> asks for the next key first: a field is converted only
  when there is a key for it, so fields beyond the last key are never read, and a
  line with fewer fields gives a dict with fewer keys. The keys are distinct, so the
  pairs in order are the dict.
\<close>

fun parse_fields :: "string list \<Rightarrow> string list \<Rightarrow> py_error + metrics" where
  "parse_fields [] fs = Inr []"
| "parse_fields (k # ks) [] = Inr []"
| "parse_fields (k # ks) (f # fs) =
     (case py_float f of
        None \<Rightarrow> Inl ValueError
      | Some v \<Rightarrow>
          (case parse_fields ks fs of
             Inl e \<Rightarrow> Inl e
           | Inr ms \<Rightarrow> Inr ((k, v) # ms)))"

text \<open>The loop over the lines of the output; \<open>data\<close> is the dict built so far.\<close>

fun line_loop :: "string list \<Rightarrow> MetricsData \<Rightarrow> py_error + MetricsData" where
  "line_loop [] data = Inr data"
| "line_loop (l # ls) data =
     (let line = split_on CHR '','' l
      in case parse_fields sorted_keys (drop 2 line) of
           Inl e \<Rightarrow> Inl e
         | Inr ms \<Rightarrow> line_loop ls (dict_set data (take 2 line) ms))"

definition get_metrics :: "tool_behaviour \<Rightarrow> (py_error + MetricsData) option" where
  "get_metrics tool =
     (case subprocess_run smi_query_call tool of
        None \<Rightarrow> None
      | Some (Inl e) \<Rightarrow> Some (Inl e)
      | Some (Inr process) \<Rightarrow> Some (line_loop (splitlines (stdout process)) []))"

subsection \<open>\<open>check_nvidia_smi\<close>\<close>

definition smi_list_call :: run_call where
  "smi_list_call = \<lparr>run_args = [NVIDIA_SMI_BIN, ''-L''], run_check = True, run_timeout = None\<rparr>"

definition msg_not_found :: string where
  "msg_not_found =
     ''Couldn't find the nvidia-smi tool. Make sure it's properly installed in one of the directories in $PATH.''"

definition msg_tool_error :: string where
  "msg_tool_error = ''The nvidia-smi tool has encountered an error: ''"

definition msg_no_gpus :: string where
  "msg_no_gpus = ''The nvidia-smi tool didn't detect any GPUs attached to the system.''"

text \<open>
  The result is the returned boolean, or an exception that neither handler catches,
  together with the world after the prints.
\<close>

definition check_nvidia_smi :: "tool_behaviour \<Rightarrow> world \<Rightarrow> ((py_error + bool) \<times> world) option" where
  "check_nvidia_smi tool w =
     (case subprocess_run smi_list_call tool of
        None \<Rightarrow> None
      | Some (Inl FileNotFoundError) \<Rightarrow> Some (Inr False, print_stderr msg_not_found w)
      | Some (Inl (CalledProcessError out err)) \<Rightarrow>
          (let w1 = print_stderr err (print_stderr msg_tool_error w);
               w2 = (if out \<noteq> [] then print_stderr out w1 else w1)
           in Some (Inr False, w2))
      | Some (Inl e) \<Rightarrow> Some (Inl e, w)
      | Some (Inr process) \<Rightarrow>
          (let cards = splitlines (stdout process)
           in if length cards = 0 then Some (Inr False, print_stderr msg_no_gpus w)
              else Some (Inr True, w)))"

subsection \<open>\<open>main\<close>\<close>

text \<open>
  How a run ends: \<open>sys.exit\<close> with a code, an exception that nothing catches, a call
  that never returns, or the loop still running when the cycles supplied by the
  environment are used up (the loop itself has no exit).
\<close>

datatype outcome =
    SysExit nat world
  | Uncaught py_error world
  | Blocked world
  | Running world

fun world_of :: "outcome \<Rightarrow> world" where
  "world_of (SysExit n w) = w"
| "world_of (Uncaught e w) = w"
| "world_of (Blocked w) = w"
| "world_of (Running w) = w"

record startup_env =
  smi_list :: tool_behaviour
  zone_response :: "py_error + string"
  id_response :: "py_error + string"

record cycle_env =
  probe :: tool_behaviour
  clock :: rat
  backend :: publish_outcome

definition called :: "run_call \<Rightarrow> world \<Rightarrow> world" where
  "called c w = w\<lparr>tool_calls := tool_calls w @ [c]\<rparr>"

definition sleep :: "nat \<Rightarrow> world \<Rightarrow> world" where
  "sleep n w = w\<lparr>sleeps := sleeps w @ [n]\<rparr>"

text \<open>
  The body of \<open>while True\<close>, once for each cycle of the environment. Nothing in the
  loop catches an exception.
\<close>

fun main_loop :: "string \<Rightarrow> string \<Rightarrow> string \<Rightarrow> cycle_env list \<Rightarrow> world \<Rightarrow> outcome" where
  "main_loop project_id zone instance_id [] w = Running w"
| "main_loop project_id zone instance_id (c # cs) w =
     (let w1 = called smi_query_call w
      in case get_metrics (probe c) of
           None \<Rightarrow> Blocked w1
         | Some (Inl e) \<Rightarrow> Uncaught e w1
         | Some (Inr ms) \<Rightarrow>
             (case report_metrics ms project_id zone instance_id (clock c) (backend c) w1 of
                Inl e \<Rightarrow> Uncaught e w1
              | Inr w2 \<Rightarrow> main_loop project_id zone instance_id cs (sleep FREQUENCY w2)))"

definition msg_no_metadata :: string where
  "msg_no_metadata =
     ''Couldn't connect with the metadata server. Are you sure you are executing this script on Google Compute Engine instance?''"

definition world0 :: world where
  "world0 = \<lparr>stderr_lines = [], backend_calls = [], tool_calls = [], sleeps = []\<rparr>"

definition main :: "startup_env \<Rightarrow> cycle_env list \<Rightarrow> outcome" where
  "main env cycles =
     (case check_nvidia_smi (smi_list env) (called smi_list_call world0) of
        None \<Rightarrow> Blocked (called smi_list_call world0)
      | Some (Inl e, w) \<Rightarrow> Uncaught e w
      | Some (Inr ok, w) \<Rightarrow>
          (if \<not> ok then SysExit 1 w
           else (case get_instance_params (zone_response env) (id_response env) of
                   Inl (ConnectionError err) \<Rightarrow>
                     SysExit 2 (print_stderr (''Encountered error:  '' @ err)
                                  (print_stderr msg_no_metadata w))
                 | Inl e \<Rightarrow> Uncaught e w
                 | Inr (project_id, zone, instance_id) \<Rightarrow>
                     main_loop project_id zone instance_id cycles w)))"

subsection \<open>Notions used in the statements\<close>

text \<open>
  A device entry on which the loops of \<open>report_metrics\<close> raise nothing: its key unpacks
  into two names and each of the seven values can be computed. The points that the
  loops then append for it, in the order of \<open>all_metrics\<close>.
\<close>

definition device_ok :: "string list \<times> metrics \<Rightarrow> bool" where
  "device_ok d = (length (fst d) = 2 \<and>
     (\<forall>x \<in> set all_metrics. \<not> isl (metric_value (snd d) (fst x) (snd x))))"

definition device_series :: "time_series \<Rightarrow> string list \<times> metrics \<Rightarrow> time_series list" where
  "device_series ts d =
     map (\<lambda>x. new_series ts (fst d ! 0) (fst d ! 1) (snd x)
                 (projr (metric_value (snd d) (fst x) (snd x)))) all_metrics"

text \<open>
  A line of the tool's output none of whose value fields that are read (at most six,
  after the name and the bus id) fails to convert; and the entry that the loop of
  \<open>get_metrics\<close> stores for such a line: its first two fields as the key, and the
  sorted catalog keys paired with its converted value fields, as far as both go.
\<close>

definition line_ok :: "string \<Rightarrow> bool" where
  "line_ok l = (\<forall>f \<in> set (take 6 (drop 2 (split_on CHR '','' l))). py_float f \<noteq> None)"

definition line_entry :: "string \<Rightarrow> string list \<times> metrics" where
  "line_entry l =
     (take 2 (split_on CHR '','' l),
      zip sorted_keys (map (the \<circ> py_float) (drop 2 (split_on CHR '','' l))))"

text \<open>
  Sample inputs. The line of the tool for one A100 and the dict entry it parses to; a
  device whose total memory reads zero; a line with a field that is no number; a line
  with a single value field.
\<close>

definition sample_line :: string where
  "sample_line = ''A100,0000:00:04.0,30720,40960,10240,60,55,30''"

definition sample_key :: "string list" where
  "sample_key = [''A100'', ''0000:00:04.0'']"

definition sample_ms :: metrics where
  "sample_ms =
     [(''memory.free'', 30720), (''memory.total'', 40960), (''memory.used'', 10240),
      (''temperature.gpu'', 60), (''utilization.gpu'', 55), (''utilization.memory'', 30)]"

definition sample_vals :: MetricsData where
  "sample_vals = [(sample_key, sample_ms)]"

definition zero_line :: string where
  "zero_line = ''T4,0000:00:05.0,0,0,0,40,0,0''"

definition zero_key :: "string list" where
  "zero_key = [''T4'', ''0000:00:05.0'']"

definition zero_ms :: metrics where
  "zero_ms =
     [(''memory.free'', 0), (''memory.total'', 0), (''memory.used'', 0),
      (''temperature.gpu'', 40), (''utilization.gpu'', 0), (''utilization.memory'', 0)]"

definition mixed_vals :: MetricsData where
  "mixed_vals = [(sample_key, sample_ms), (zero_key, zero_ms)]"

definition bad_line :: string where
  "bad_line = ''T4,0000:00:05.0,[N/A],0,0,40,0,0''"

definition short_line :: string where
  "short_line = ''T4,0000:00:05.0,0''"

definition lines_text :: "string list \<Rightarrow> string" where
  "lines_text ls = concat (map (\<lambda>l. l @ [CHR 0x0A]) ls)"

definition good_env :: startup_env where
  "good_env =
     \<lparr>smi_list = Exits 0 (lines_text [''GPU 0: A100'']) [],
      zone_response = Inr ''projects/123/zones/europe-west3-c'',
      id_response = Inr ''42''\<rparr>"

definition good_cycle :: cycle_env where
  "good_cycle =
     \<lparr>probe = Exits 0 (lines_text [sample_line]) [], clock = 3 / 2, backend = PublishOk\<rparr>"

definition short_vals :: MetricsData where
  "short_vals = [(zero_key, [(''memory.free'', 0)]), (sample_key, sample_ms)]"

definition mixed_cycle :: cycle_env where
  "mixed_cycle =
     \<lparr>probe = Exits 0 (lines_text [sample_line, zero_line]) [], clock = 3 / 2,
      backend = PublishOk\<rparr>"

definition bad_cycle :: cycle_env where
  "bad_cycle =
     \<lparr>probe = Exits 0 (lines_text [bad_line, sample_line]) [], clock = 3 / 2,
      backend = PublishOk\<rparr>"

definition hang_cycle :: cycle_env where
  "hang_cycle = \<lparr>probe = Hangs, clock = 3 / 2, backend = PublishOk\<rparr>"

definition fail_cycle :: cycle_env where
  "fail_cycle =
     \<lparr>probe = Exits 0 (lines_text [sample_line]) [], clock = 3 / 2,
      backend = PublishFails ''503 Service Unavailable''\<rparr>"

text \<open>Startups that fail, one for each kind of failure, and a zone answer of two segments.\<close>

definition env_not_found :: startup_env where
  "env_not_found = good_env\<lparr>smi_list := NotFound\<rparr>"

definition env_tool_error :: startup_env where
  "env_tool_error = good_env\<lparr>smi_list := Exits 9 [] ''Failed to initialize NVML''\<rparr>"

definition env_no_devices :: startup_env where
  "env_no_devices = good_env\<lparr>smi_list := Exits 0 [] []\<rparr>"

definition env_no_metadata :: startup_env where
  "env_no_metadata = good_env\<lparr>zone_response := Inl (ConnectionError ''Connection refused'')\<rparr>"

definition env_short_zone :: startup_env where
  "env_short_zone = good_env\<lparr>zone_response := Inr ''projects/123''\<rparr>"

section \<open>Properties\<close>

subsection \<open>The loops of \<open>report_metrics\<close>\<close>

lemma all_metrics_eq:
  "all_metrics =
     [(''utilization.gpu'', ''instance/gpu/utilization''),
      (''utilization.memory'', ''instance/gpu/memory_utilization''),
      (''memory.total'', ''instance/gpu/memory_total''),
      (''memory.used'', ''instance/gpu/memory_used''),
      (''memory.free'', ''instance/gpu/memory_free''),
      (''temperature.gpu'', ''instance/gpu/temperature''),
      ([], ''instance/gpu/memory_used_percent'')]"
  by (simp add: all_metrics_def METRICS_def MEM_USED_PERCENT_def)


lemma metric_value_catalog:
  "(smi, gcp) \<in> set METRICS \<Longrightarrow> metric_value ms smi gcp = dict_get ms smi"
  by (auto simp: METRICS_def metric_value_def MEM_USED_PERCENT_def)

lemma metric_value_percent:
  "metric_value ms [] MEM_USED_PERCENT =
     (case map_of ms ''memory.used'' of
        None \<Rightarrow> Inl (KeyError ''memory.used'')
      | Some u \<Rightarrow>
          (case map_of ms ''memory.total'' of
             None \<Rightarrow> Inl (KeyError ''memory.total'')
           | Some t \<Rightarrow> if t = 0 then Inl ZeroDivisionError
                       else Inr (of_int (py_round (u / t * 100)))))"
  by (simp add: metric_value_def dict_get_def split: option.splits)

lemma not_isl_iff: "(\<not> isl x) = (\<exists>v. x = Inr v)"
  by (cases x) simp_all

lemma metric_loop_Inr:
  "metric_loop ts g b ms xs series = Inr out \<Longrightarrow>
     (\<forall>x \<in> set xs. \<exists>v. metric_value ms (fst x) (snd x) = Inr v) \<and>
     out = series @ map (\<lambda>x. new_series ts g b (snd x) (projr (metric_value ms (fst x) (snd x)))) xs"
proof (induction xs arbitrary: series)
  case Nil
  then show ?case by simp
next
  case (Cons x xs)
  obtain smi gcp where x: "x = (smi, gcp)" by (cases x)
  from Cons.prems x obtain v where v: "metric_value ms smi gcp = Inr v"
    and rest: "metric_loop ts g b ms xs (series @ [new_series ts g b gcp v]) = Inr out"
    by (auto split: sum.splits)
  from Cons.IH [OF rest] x v show ?case by simp
qed

lemma metric_loop_Inl:
  "metric_loop ts g b ms xs series = Inl e \<Longrightarrow>
     \<exists>x \<in> set xs. metric_value ms (fst x) (snd x) = Inl e"
  by (induction xs arbitrary: series) (auto split: sum.splits)

lemma metric_loop_total:
  "\<forall>x \<in> set xs. \<exists>v. metric_value ms (fst x) (snd x) = Inr v \<Longrightarrow>
     \<exists>out. metric_loop ts g b ms xs series = Inr out"
  by (induction xs arbitrary: series) (auto split: sum.splits)


lemma length_2_cases: "length (key :: 'a list) = 2 \<longleftrightarrow> (\<exists>a b. key = [a, b])"
  by (cases key; cases "tl key"; cases "tl (tl key)") auto

lemma device_loop_Inr:
  "device_loop ts vals series = Inr out \<Longrightarrow>
     (\<forall>d \<in> set vals. device_ok d) \<and> out = series @ concat (map (device_series ts) vals)"
proof (induction vals arbitrary: series)
  case Nil
  then show ?case by simp
next
  case (Cons d vals)
  obtain key ms where d: "d = (key, ms)" by (cases d)
  from Cons.prems d obtain g b where key: "key = [g, b]"
    by (auto split: list.splits)
  from Cons.prems d key obtain s1 where
    s1: "metric_loop ts g b ms all_metrics series = Inr s1"
    and rest: "device_loop ts vals s1 = Inr out"
    by (auto split: sum.splits)
  from metric_loop_Inr [OF s1] d key
  have ok: "device_ok d" and s1_eq: "s1 = series @ device_series ts d"
    by (simp_all add: device_ok_def device_series_def not_isl_iff)
  from Cons.IH [OF rest] ok s1_eq show ?case by simp
qed

lemma device_loop_Inl:
  "device_loop ts vals series = Inl e \<Longrightarrow> \<exists>d \<in> set vals. \<not> device_ok d"
proof (induction vals arbitrary: series)
  case Nil
  then show ?case by simp
next
  case (Cons d vals)
  obtain key ms where d: "d = (key, ms)" by (cases d)
  show ?case
  proof (cases "device_ok d")
    case False
    then show ?thesis by simp
  next
    case True
    with d obtain g b where key: "key = [g, b]"
      by (auto simp: device_ok_def length_2_cases)
    from True d have "\<forall>x \<in> set all_metrics. \<exists>v. metric_value ms (fst x) (snd x) = Inr v"
      by (simp add: device_ok_def not_isl_iff)
    from metric_loop_total [OF this] obtain s1 where
      "metric_loop ts g b ms all_metrics series = Inr s1" by blast
    with Cons.prems d key have "device_loop ts vals s1 = Inl e" by simp
    from Cons.IH [OF this] show ?thesis by simp
  qed
qed

lemma device_loop_cases:
  "(\<exists>out. device_loop ts vals series = Inr out) \<or> (\<exists>e. device_loop ts vals series = Inl e)"
  by (cases "device_loop ts vals series") auto

lemma device_loop_ok_iff:
  "(\<exists>out. device_loop ts vals series = Inr out) \<longleftrightarrow> (\<forall>d \<in> set vals. device_ok d)"
  using device_loop_Inr device_loop_Inl device_loop_cases by (metis sum.distinct(1))

lemma device_ok_iff:
  "device_ok (key, ms) \<longleftrightarrow>
     length key = 2 \<and> (\<forall>k \<in> set (map fst METRICS). map_of ms k \<noteq> None) \<and>
     map_of ms ''memory.total'' \<noteq> Some 0"
  by (auto simp: device_ok_def all_metrics_eq METRICS_def metric_value_def dict_get_def
        MEM_USED_PERCENT_def split: option.splits)





lemma report_metrics_Inr:
  assumes "report_metrics vals p z i now b w = Inr w'"
  shows "(\<forall>d \<in> set vals. device_ok d) \<and>
    device_loop (base_series p z i now) vals [] =
      Inr (concat (map (device_series (base_series p z i now)) vals)) \<and>
    backend_calls w' = backend_calls w @
      [\<lparr>call_name = ''projects/'' @ p,
        call_series = concat (map (device_series (base_series p z i now)) vals),
        call_outcome = b\<rparr>] \<and>
    stderr_lines w' = stderr_lines w @
      (case b of PublishOk \<Rightarrow> [] | PublishFails err \<Rightarrow> [''Encountered an error:'', err]) \<and>
    tool_calls w' = tool_calls w \<and> sleeps w' = sleeps w"
proof -
  from assms obtain series where
    dl: "device_loop (base_series p z i now) vals [] = Inr series"
    by (auto simp: report_metrics_def Let_def split: sum.splits)
  from device_loop_Inr [OF dl]
  have ok: "\<forall>d \<in> set vals. device_ok d"
    and series: "series = concat (map (device_series (base_series p z i now)) vals)"
    by simp_all
  from assms dl series show ?thesis
    using ok by (cases b) (auto simp: report_metrics_def Let_def print_stderr_def)
qed

lemma report_metrics_Inl:
  "report_metrics vals p z i now b w = Inl e \<longleftrightarrow>
     device_loop (base_series p z i now) vals [] = Inl e"
  by (cases b) (auto simp: report_metrics_def Let_def split: sum.splits)

lemma report_metrics_of_series:
  "device_loop (base_series p z i now) vals [] = Inr series \<Longrightarrow>
   report_metrics vals p z i now b w =
     Inr (w\<lparr>backend_calls := backend_calls w @
               [\<lparr>call_name = ''projects/'' @ p, call_series = series, call_outcome = b\<rparr>],
            stderr_lines := stderr_lines w @
               (case b of PublishOk \<Rightarrow> [] | PublishFails err \<Rightarrow> [''Encountered an error:'', err])\<rparr>)"
  by (cases b) (simp_all add: report_metrics_def Let_def print_stderr_def)


lemma report_metrics_returns:
  assumes "\<forall>d \<in> set vals. device_ok d"
  shows "\<exists>w'. report_metrics vals p z i now b w = Inr w'"
proof -
  from assms device_loop_ok_iff obtain series where
    "device_loop (base_series p z i now) vals [] = Inr series" by blast
  from report_metrics_of_series [OF this] show ?thesis by blast
qed

lemma sample_vals_ok: "\<forall>d \<in> set sample_vals. device_ok d"
  by (simp add: sample_vals_def sample_key_def sample_ms_def device_ok_iff METRICS_def)

lemma series_mem:
  "ts \<in> set (concat (map (device_series base) vals)) \<longleftrightarrow>
     (\<exists>d \<in> set vals. \<exists>x \<in> set all_metrics.
        ts = new_series base (fst d ! 0) (fst d ! 1) (snd x)
               (projr (metric_value (snd d) (fst x) (snd x))))"
  by (auto simp: device_series_def)

lemma new_series_fields:
  "metric_type (new_series (base_series p z i now) g b gcp v) = ''custom.googleapis.com/'' @ gcp"
  "metric_labels (new_series (base_series p z i now) g b gcp v) = [(''gpu_type'', g), (''gpu_bus_id'', b)]"
  "map double_value (points (new_series (base_series p z i now) g b gcp v)) = [v]"
  by (simp_all add: new_series_def base_series_def Let_def)



lemma last_call:
  "backend_calls w' = cs @ [c] \<Longrightarrow> call_series (last (backend_calls w')) = call_series c"
  by simp

subsection \<open>Evaluation of the sample inputs\<close>

lemma sorted_keys_eq:
  "sorted_keys = [''memory.free'', ''memory.total'', ''memory.used'', ''temperature.gpu'',
                  ''utilization.gpu'', ''utilization.memory'']"
  by code_simp

lemma split_samples:
  "split_on CHR '','' sample_line =
     [''A100'', ''0000:00:04.0'', ''30720'', ''40960'', ''10240'', ''60'', ''55'', ''30'']"
  "split_on CHR '','' zero_line = [''T4'', ''0000:00:05.0'', ''0'', ''0'', ''0'', ''40'', ''0'', ''0'']"
  "split_on CHR '','' bad_line = [''T4'', ''0000:00:05.0'', ''[N/A]'', ''0'', ''0'', ''40'', ''0'', ''0'']"
  "split_on CHR '','' short_line = [''T4'', ''0000:00:05.0'', ''0'']"
  by (simp_all add: sample_line_def zero_line_def bad_line_def short_line_def)

lemma py_float_samples:
  "py_float ''30720'' = Some 30720"
  "py_float ''40960'' = Some 40960"
  "py_float ''10240'' = Some 10240"
  "py_float ''60'' = Some 60"
  "py_float ''55'' = Some 55"
  "py_float ''40'' = Some 40"
  "py_float ''30'' = Some 30"
  "py_float ''0'' = Some 0"
  "py_float ''[N/A]'' = None"
  by (simp_all add: py_float_def strip_def py_isspace_def is_digit_def digits_val_def Let_def)

lemma no_linebreak_samples:
  "\<forall>c \<in> set sample_line. \<not> is_linebreak c"
  "\<forall>c \<in> set zero_line. \<not> is_linebreak c"
  "\<forall>c \<in> set bad_line. \<not> is_linebreak c"
  "\<forall>c \<in> set short_line. \<not> is_linebreak c"
  "\<forall>c \<in> set ''GPU 0: A100''. \<not> is_linebreak c"
  by (simp_all add: sample_line_def zero_line_def bad_line_def short_line_def is_linebreak_def)

lemma splitlines_from_line:
  "\<forall>c \<in> set l. \<not> is_linebreak c \<Longrightarrow>
     splitlines_from False cur (l @ CHR 0x0A # rest) = (rev cur @ l) # splitlines_from False [] rest"
  by (induction l arbitrary: cur) (simp_all add: is_linebreak_def)

lemma splitlines_lines_text:
  "\<forall>l \<in> set ls. \<forall>c \<in> set l. \<not> is_linebreak c \<Longrightarrow> splitlines (lines_text ls) = ls"
  unfolding splitlines_def lines_text_def
  by (induction ls) (simp_all add: splitlines_from_line)

lemma line_loop_samples:
  "line_loop [sample_line] [] = Inr sample_vals"
  "line_loop [sample_line, zero_line] [] = Inr mixed_vals"
  "line_loop [bad_line, sample_line] [] = Inl ValueError"
  "line_loop [short_line, sample_line] [] = Inr short_vals"
  by (simp_all add: Let_def split_samples sorted_keys_eq py_float_samples sample_vals_def
      mixed_vals_def short_vals_def sample_key_def sample_ms_def zero_key_def zero_ms_def)

lemma get_metrics_Exits:
  "get_metrics (Exits rc out err) = Some (line_loop (splitlines out) [])"
  by (simp add: get_metrics_def subprocess_run_def smi_query_call_def)

lemma get_metrics_lines_text:
  "\<forall>l \<in> set ls. \<forall>c \<in> set l. \<not> is_linebreak c \<Longrightarrow>
     get_metrics (Exits rc (lines_text ls) err) = Some (line_loop ls [])"
  by (simp add: get_metrics_Exits splitlines_lines_text)

lemma get_metrics_samples:
  "get_metrics (Exits 0 (lines_text [sample_line]) []) = Some (Inr sample_vals)"
  "get_metrics (Exits 0 (lines_text [sample_line, zero_line]) []) = Some (Inr mixed_vals)"
  "get_metrics (Exits 0 (lines_text [bad_line, sample_line]) []) = Some (Inl ValueError)"
  "get_metrics (Exits 0 (lines_text [short_line, sample_line]) []) = Some (Inr short_vals)"
  by (simp_all add: get_metrics_lines_text no_linebreak_samples line_loop_samples
      del: line_loop.simps)


subsection \<open>Which errors the loops raise\<close>

lemma metric_value_error:
  assumes "x \<in> set all_metrics" "metric_value ms (fst x) (snd x) = Inl e"
  shows "e = ZeroDivisionError \<and> map_of ms ''memory.total'' = Some 0 \<or>
         (\<exists>k \<in> set (map fst METRICS). e = KeyError k \<and> map_of ms k = None)"
proof (cases "x \<in> set METRICS")
  case True
  then have "metric_value ms (fst x) (snd x) = dict_get ms (fst x)"
    using metric_value_catalog [of "fst x" "snd x" ms] by simp
  with assms(2) have "e = KeyError (fst x) \<and> map_of ms (fst x) = None"
    by (simp add: dict_get_def split: option.splits)
  with True show ?thesis by force
next
  case False
  with assms(1) have x: "x = ([], MEM_USED_PERCENT)" by (simp add: all_metrics_def)
  have keys: "''memory.used'' \<in> set (map fst METRICS)" "''memory.total'' \<in> set (map fst METRICS)"
    by (simp_all add: METRICS_def)
  from assms(2) x have
    "(e = KeyError ''memory.used'' \<and> map_of ms ''memory.used'' = None) \<or>
     (e = KeyError ''memory.total'' \<and> map_of ms ''memory.total'' = None) \<or>
     (e = ZeroDivisionError \<and> map_of ms ''memory.total'' = Some 0)"
    by (simp add: metric_value_percent split: option.splits if_splits)
  with keys show ?thesis by blast
qed

lemma device_loop_error:
  "device_loop ts vals series = Inl e \<Longrightarrow>
     \<exists>d \<in> set vals. (length (fst d) \<noteq> 2 \<and> e = ValueError) \<or>
        (\<exists>x \<in> set all_metrics. metric_value (snd d) (fst x) (snd x) = Inl e)"
proof (induction vals arbitrary: series)
  case Nil
  then show ?case by simp
next
  case (Cons d vals)
  obtain key ms where d: "d = (key, ms)" by (cases d)
  show ?case
  proof (cases "length key = 2")
    case False
    then have "\<not> (\<exists>g b. key = [g, b])" by (simp add: length_2_cases)
    with Cons.prems d have "e = ValueError"
      by (auto split: list.splits)
    with False d show ?thesis by simp
  next
    case True
    then obtain g b where key: "key = [g, b]" by (auto simp: length_2_cases)
    show ?thesis
    proof (cases "metric_loop ts g b ms all_metrics series")
      case (Inl e')
      with Cons.prems d key have "e' = e" by simp
      with Inl metric_loop_Inl [of ts g b ms all_metrics series e] d show ?thesis by auto
    next
      case (Inr s1)
      with Cons.prems d key have "device_loop ts vals s1 = Inl e" by simp
      from Cons.IH [OF this] show ?thesis by auto
    qed
  qed
qed

lemma report_metrics_error:
  assumes "report_metrics vals p z i now b w = Inl e"
  shows "e = ValueError \<or> e = ZeroDivisionError \<or> (\<exists>k \<in> set (map fst METRICS). e = KeyError k)"
proof -
  from assms have "device_loop (base_series p z i now) vals [] = Inl e"
    by (simp add: report_metrics_Inl)
  from device_loop_error [OF this] obtain d where
    d: "length (fst d) \<noteq> 2 \<and> e = ValueError \<or>
        (\<exists>x \<in> set all_metrics. metric_value (snd d) (fst x) (snd x) = Inl e)"
    and "d \<in> set vals"
    by blast
  from d show ?thesis
  proof
    assume "length (fst d) \<noteq> 2 \<and> e = ValueError"
    then show ?thesis by simp
  next
    assume "\<exists>x \<in> set all_metrics. metric_value (snd d) (fst x) (snd x) = Inl e"
    then obtain x where "x \<in> set all_metrics" "metric_value (snd d) (fst x) (snd x) = Inl e"
      by blast
    from metric_value_error [OF this] show ?thesis by blast
  qed
qed

lemma report_metrics_raises:
  assumes "d \<in> set vals" "\<not> device_ok d"
  shows "\<exists>e. report_metrics vals p z i now b w = Inl e"
proof (cases "report_metrics vals p z i now b w")
  case (Inl e)
  then show ?thesis by blast
next
  case (Inr w')
  from report_metrics_Inr [OF this] assms show ?thesis by blast
qed

lemma not_device_ok:
  "map_of (snd d) ''memory.total'' = Some 0 \<or>
   (\<exists>k \<in> set (map fst METRICS). map_of (snd d) k = None) \<Longrightarrow> \<not> device_ok d"
  using device_ok_iff [of "fst d" "snd d"] by auto

subsection \<open>One iteration of the loop of \<open>main\<close>\<close>

lemma main_loop_probe_raises:
  "get_metrics (probe c) = Some (Inl e) \<Longrightarrow>
     main_loop p z i (c # cs) w = Uncaught e (called smi_query_call w)"
  by (simp add: Let_def)

lemma main_loop_probe_hangs:
  "get_metrics (probe c) = None \<Longrightarrow>
     main_loop p z i (c # cs) w = Blocked (called smi_query_call w)"
  by (simp add: Let_def)

lemma main_loop_report_raises:
  "get_metrics (probe c) = Some (Inr ms) \<Longrightarrow>
   report_metrics ms p z i (clock c) (backend c) (called smi_query_call w) = Inl e \<Longrightarrow>
     main_loop p z i (c # cs) w = Uncaught e (called smi_query_call w)"
  by (simp add: Let_def)

lemma main_loop_continues:
  "get_metrics (probe c) = Some (Inr ms) \<Longrightarrow>
   report_metrics ms p z i (clock c) (backend c) (called smi_query_call w) = Inr w2 \<Longrightarrow>
     main_loop p z i (c # cs) w = main_loop p z i cs (sleep FREQUENCY w2)"
  by (simp add: Let_def)


subsection \<open>The loop of \<open>get_metrics\<close>\<close>

lemma length_sorted_keys: "length sorted_keys = 6"
  by (simp add: sorted_keys_eq)

lemma parse_fields_eq:
  "parse_fields ks fs =
     (if \<forall>f \<in> set (take (length ks) fs). py_float f \<noteq> None
      then Inr (zip ks (map (the \<circ> py_float) fs)) else Inl ValueError)"
proof (induction ks fs rule: parse_fields.induct)
  case (1 fs)
  show ?case by simp
next
  case (2 k ks)
  show ?case by simp
next
  case (3 k ks f fs)
  show ?case
  proof (cases "py_float f")
    case None
    then show ?thesis by simp
  next
    case (Some v)
    with 3 show ?thesis by (auto simp: o_def)
  qed
qed

lemma line_loop_Cons:
  "line_loop (l # ls) data =
     (if line_ok l then line_loop ls (dict_set data (fst (line_entry l)) (snd (line_entry l)))
      else Inl ValueError)"
  by (auto simp: Let_def parse_fields_eq length_sorted_keys line_ok_def line_entry_def)


lemma dict_set_keys: "fst ` set (dict_set d k v) = insert k (fst ` set d)"
proof (induction d)
  case Nil
  show ?case by simp
next
  case (Cons a d)
  obtain k' v' where a: "a = (k', v')" by (cases a)
  show ?case
  proof (cases "k' = k")
    case True
    with a show ?thesis by simp
  next
    case False
    with a Cons.IH show ?thesis by auto
  qed
qed




text \<open>The dict that \<open>get_metrics\<close> returns has distinct keys.\<close>

lemma dict_set_distinct:
  "distinct (map fst d) \<Longrightarrow> distinct (map fst (dict_set d k v))"
proof (induction d)
  case Nil
  show ?case by simp
next
  case (Cons a d)
  obtain k' v' where a: "a = (k', v')" by (cases a)
  show ?case
  proof (cases "k' = k")
    case True
    with a Cons.prems show ?thesis by simp
  next
    case False
    have "fst ` set (dict_set d k v) = insert k (fst ` set d)" by (rule dict_set_keys)
    with False a Cons show ?thesis by auto
  qed
qed

lemma line_loop_distinct:
  "line_loop ls data = Inr data' \<Longrightarrow> distinct (map fst data) \<Longrightarrow> distinct (map fst data')"
proof (induction ls arbitrary: data)
  case Nil
  then show ?case by simp
next
  case (Cons l ls)
  show ?case
  proof (cases "line_ok l")
    case True
    with Cons.prems(1)
    have "line_loop ls (dict_set data (fst (line_entry l)) (snd (line_entry l))) = Inr data'"
      by (simp only: line_loop_Cons if_True)
    from Cons.IH [OF this dict_set_distinct [OF Cons.prems(2)]] show ?thesis .
  next
    case False
    with Cons.prems(1) show ?thesis by (simp only: line_loop_Cons if_False sum.distinct)
  qed
qed

lemma get_metrics_distinct:
  assumes "get_metrics tool = Some (Inr data)"
  shows "distinct (map fst data)"
proof (cases tool)
  case NotFound
  with assms show ?thesis by (simp add: get_metrics_def subprocess_run_def)
next
  case (Exits rc out err)
  with assms have "line_loop (splitlines out) [] = Inr data" by (simp add: get_metrics_Exits)
  from line_loop_distinct [OF this] show ?thesis by simp
next
  case Hangs
  with assms show ?thesis by (simp add: get_metrics_def subprocess_run_def smi_query_call_def)
qed


subsection \<open>The points of one cycle\<close>








subsection \<open>The derived percentage\<close>





lemma mixed_vals_raises:
  "device_loop ts mixed_vals [] = Inl ZeroDivisionError"
  by (simp add: mixed_vals_def sample_key_def sample_ms_def zero_key_def zero_ms_def
      all_metrics_eq metric_value_def dict_get_def MEM_USED_PERCENT_def)

lemma short_vals_raises:
  "device_loop ts short_vals [] = Inl (KeyError ''utilization.gpu'')"
  by (simp add: short_vals_def sample_key_def sample_ms_def zero_key_def
      all_metrics_eq metric_value_def dict_get_def MEM_USED_PERCENT_def)

lemma probe_samples:
  "get_metrics (probe good_cycle) = Some (Inr sample_vals)"
  "get_metrics (probe mixed_cycle) = Some (Inr mixed_vals)"
  "get_metrics (probe bad_cycle) = Some (Inl ValueError)"
  "get_metrics (probe fail_cycle) = Some (Inr sample_vals)"
  "get_metrics (probe hang_cycle) = None"
  by (simp_all add: good_cycle_def mixed_cycle_def bad_cycle_def fail_cycle_def hang_cycle_def
      get_metrics_samples)
    (simp add: get_metrics_def subprocess_run_def smi_query_call_def)

subsection \<open>A device that cannot be reported\<close>

text \<open>
  Claim C1, as the code has it. When the dict holds a device whose memory.total is
  zero or that lacks a catalog key, \<open>report_metrics\<close> raises while it builds the
  series, before it calls the backend: a ValueError, a ZeroDivisionError or the
  KeyError of a catalog key, whichever the loops meet first. No point of any device
  is submitted, and in \<open>main\<close> the exception leaves the loop. The claim that only the
  derived metric of that device is left out, the rest being published, fails on the
  two devices of \<open>mixed_vals\<close>: see the counterexample.
\<close>

theorem bad_device_aborts_batch:
  assumes "d \<in> set vals"
    and "map_of (snd d) ''memory.total'' = Some 0 \<or>
         (\<exists>k \<in> set (map fst METRICS). map_of (snd d) k = None)"
  shows "(\<exists>e. report_metrics vals p z i now b w = Inl e \<and>
            (e = ValueError \<or> e = ZeroDivisionError \<or>
             (\<exists>k \<in> set (map fst METRICS). e = KeyError k))) \<and>
         (get_metrics (probe c) = Some (Inr vals) \<longrightarrow>
            (\<exists>e. main_loop p z i (c # cs) w = Uncaught e (called smi_query_call w)) \<and>
            backend_calls (world_of (main_loop p z i (c # cs) w)) = backend_calls w)"
proof -
  from assms(2) have bad: "\<not> device_ok d" by (rule not_device_ok)
  have raises: "\<exists>e. report_metrics vals p z i now' b' w' = Inl e" for now' b' w'
    using assms(1) bad by (rule report_metrics_raises)
  from raises obtain e where e: "report_metrics vals p z i now b w = Inl e" by blast
  from report_metrics_error [OF e] e have first: "\<exists>e. report_metrics vals p z i now b w = Inl e \<and>
            (e = ValueError \<or> e = ZeroDivisionError \<or>
             (\<exists>k \<in> set (map fst METRICS). e = KeyError k))"
    by blast
  have second: "(\<exists>e. main_loop p z i (c # cs) w = Uncaught e (called smi_query_call w)) \<and>
            backend_calls (world_of (main_loop p z i (c # cs) w)) = backend_calls w"
    if probe: "get_metrics (probe c) = Some (Inr vals)"
  proof -
    from raises obtain e' where
      "report_metrics vals p z i (clock c) (backend c) (called smi_query_call w) = Inl e'"
      by blast
    from main_loop_report_raises [OF probe this]
    have "main_loop p z i (c # cs) w = Uncaught e' (called smi_query_call w)" .
    then show ?thesis by (simp add: called_def)
  qed
  from first second show ?thesis by blast
qed

theorem bad_device_aborts_batch_witness:
  "(zero_key, zero_ms) \<in> set mixed_vals \<and>
   map_of (snd (zero_key, zero_ms)) ''memory.total'' = Some 0 \<and>
   get_metrics (probe mixed_cycle) = Some (Inr mixed_vals) \<and>
   (\<exists>e. report_metrics mixed_vals ''123'' ''europe-west3-c'' ''42'' (3 / 2) PublishOk world0 = Inl e \<and>
        (e = ValueError \<or> e = ZeroDivisionError \<or>
         (\<exists>k \<in> set (map fst METRICS). e = KeyError k))) \<and>
   (\<exists>e. main_loop ''123'' ''europe-west3-c'' ''42'' (mixed_cycle # [good_cycle]) world0 =
          Uncaught e (called smi_query_call world0)) \<and>
   backend_calls (world_of (main_loop ''123'' ''europe-west3-c'' ''42'' (mixed_cycle # [good_cycle]) world0)) =
     backend_calls world0"
proof -
  have mem: "(zero_key, zero_ms) \<in> set mixed_vals" by (simp add: mixed_vals_def)
  have zero: "map_of (snd (zero_key, zero_ms)) ''memory.total'' = Some 0"
    by (simp add: zero_ms_def)
  note t = bad_device_aborts_batch [OF mem disjI1, OF zero,
      of "''123''" "''europe-west3-c''" "''42''" "3 / 2" PublishOk world0 mixed_cycle "[good_cycle]"]
  note t2 = t [THEN conjunct2, THEN mp, OF probe_samples(2)]
  from mem zero probe_samples(2) t [THEN conjunct1] t2 [THEN conjunct1] t2 [THEN conjunct2]
  show ?thesis by - (intro conjI; assumption)
qed

theorem bad_device_aborts_batch_counterexample:
  "report_metrics mixed_vals ''123'' ''europe-west3-c'' ''42'' (3 / 2) PublishOk world0 =
     Inl ZeroDivisionError \<and>
   main_loop ''123'' ''europe-west3-c'' ''42'' [mixed_cycle, good_cycle] world0 =
     Uncaught ZeroDivisionError (called smi_query_call world0) \<and>
   backend_calls (called smi_query_call world0) = []"
proof -
  have r: "report_metrics mixed_vals p z i now b w = Inl ZeroDivisionError" for p z i now b w
    by (simp add: report_metrics_Inl mixed_vals_raises)
  from main_loop_report_raises [OF probe_samples(2) r]
  have "main_loop ''123'' ''europe-west3-c'' ''42'' [mixed_cycle, good_cycle] world0 =
     Uncaught ZeroDivisionError (called smi_query_call world0)" .
  moreover have "backend_calls (called smi_query_call world0) = []"
    by (simp add: called_def world0_def)
  ultimately show ?thesis using r by - (intro conjI; assumption)
qed


lemma metric_value_Inr:
  assumes "x \<in> set all_metrics" "metric_value ms (fst x) (snd x) = Inr v"
  shows "(x \<in> set METRICS \<and> map_of ms (fst x) = Some v) \<or>
         (x = ([], MEM_USED_PERCENT) \<and>
          (\<exists>u t. map_of ms ''memory.used'' = Some u \<and> map_of ms ''memory.total'' = Some t \<and>
                 t \<noteq> 0 \<and> v = of_int (py_round (u / t * 100))))"
proof (cases "x \<in> set METRICS")
  case True
  then have "metric_value ms (fst x) (snd x) = dict_get ms (fst x)"
    using metric_value_catalog [of "fst x" "snd x" ms] by simp
  with assms(2) have "map_of ms (fst x) = Some v"
    by (simp add: dict_get_def split: option.splits)
  with True show ?thesis by simp
next
  case False
  with assms(1) have x: "x = ([], MEM_USED_PERCENT)" by (simp add: all_metrics_def)
  from assms(2) x have
    "\<exists>u t. map_of ms ''memory.used'' = Some u \<and> map_of ms ''memory.total'' = Some t \<and>
           t \<noteq> 0 \<and> v = of_int (py_round (u / t * 100))"
    by (simp add: metric_value_percent split: option.splits if_splits)
  with x show ?thesis by blast
qed

subsection \<open>Missing keys\<close>

text \<open>
  Claim C9. If some device of the dict lacks a catalog key, \<open>report_metrics\<close> raises
  (a ValueError, a ZeroDivisionError or the KeyError of a catalog key) and so
  publishes nothing. If it returns, every device has a value for every catalog key,
  and every series it submitted carries, for some device of the dict and some metric,
  either the value stored in that device's entry under the key of the metric, or the
  percentage computed from the memory.used and memory.total stored there: no value
  is made up for a missing key.
\<close>

theorem missing_key_fails_explicitly:
  "((\<exists>d \<in> set vals. \<exists>k \<in> set (map fst METRICS). map_of (snd d) k = None) \<longrightarrow>
      (\<exists>e. report_metrics vals p z i now b w = Inl e \<and>
           (e = ValueError \<or> e = ZeroDivisionError \<or>
            (\<exists>k \<in> set (map fst METRICS). e = KeyError k)))) \<and>
   (\<forall>w'. report_metrics vals p z i now b w = Inr w' \<longrightarrow>
      (\<forall>d \<in> set vals. \<forall>k \<in> set (map fst METRICS). map_of (snd d) k \<noteq> None) \<and>
      (\<forall>ts \<in> set (call_series (last (backend_calls w'))).
         \<exists>d \<in> set vals. \<exists>x \<in> set all_metrics. \<exists>v.
           metric_type ts = ''custom.googleapis.com/'' @ snd x \<and>
           metric_labels ts = [(''gpu_type'', fst d ! 0), (''gpu_bus_id'', fst d ! 1)] \<and>
           map double_value (points ts) = [v] \<and>
           ((x \<in> set METRICS \<and> map_of (snd d) (fst x) = Some v) \<or>
            (x = ([], MEM_USED_PERCENT) \<and>
             (\<exists>u t. map_of (snd d) ''memory.used'' = Some u \<and>
                    map_of (snd d) ''memory.total'' = Some t \<and>
                    t \<noteq> 0 \<and> v = of_int (py_round (u / t * 100)))))))"
proof (intro conjI impI allI)
  assume "\<exists>d \<in> set vals. \<exists>k \<in> set (map fst METRICS). map_of (snd d) k = None"
  then obtain d where d: "d \<in> set vals"
    and miss: "\<exists>k \<in> set (map fst METRICS). map_of (snd d) k = None"
    by blast
  from miss have "\<not> device_ok d" by (intro not_device_ok disjI2)
  from report_metrics_raises [OF d this] obtain e where
    e: "report_metrics vals p z i now b w = Inl e" by blast
  from report_metrics_error [OF e] e
  show "\<exists>e. report_metrics vals p z i now b w = Inl e \<and>
           (e = ValueError \<or> e = ZeroDivisionError \<or>
            (\<exists>k \<in> set (map fst METRICS). e = KeyError k))"
    by blast
next
  fix w'
  assume ret: "report_metrics vals p z i now b w = Inr w'"
  from report_metrics_Inr [OF ret]
  have ok: "\<forall>d \<in> set vals. device_ok d" by simp
  show "\<forall>d \<in> set vals. \<forall>k \<in> set (map fst METRICS). map_of (snd d) k \<noteq> None"
  proof
    fix d assume "d \<in> set vals"
    with ok have "device_ok (fst d, snd d)" by simp
    then show "\<forall>k \<in> set (map fst METRICS). map_of (snd d) k \<noteq> None"
      unfolding device_ok_iff by blast
  qed
next
  fix w'
  assume ret: "report_metrics vals p z i now b w = Inr w'"
  let ?base = "base_series p z i now"
  from report_metrics_Inr [OF ret]
  have ok: "\<forall>d \<in> set vals. device_ok d"
    and S: "call_series (last (backend_calls w')) = concat (map (device_series ?base) vals)"
    by simp_all
  show "\<forall>ts \<in> set (call_series (last (backend_calls w'))).
         \<exists>d \<in> set vals. \<exists>x \<in> set all_metrics. \<exists>v.
           metric_type ts = ''custom.googleapis.com/'' @ snd x \<and>
           metric_labels ts = [(''gpu_type'', fst d ! 0), (''gpu_bus_id'', fst d ! 1)] \<and>
           map double_value (points ts) = [v] \<and>
           ((x \<in> set METRICS \<and> map_of (snd d) (fst x) = Some v) \<or>
            (x = ([], MEM_USED_PERCENT) \<and>
             (\<exists>u t. map_of (snd d) ''memory.used'' = Some u \<and>
                    map_of (snd d) ''memory.total'' = Some t \<and>
                    t \<noteq> 0 \<and> v = of_int (py_round (u / t * 100)))))"
  proof
    fix ts assume "ts \<in> set (call_series (last (backend_calls w')))"
    then obtain d x where d: "d \<in> set vals" and x: "x \<in> set all_metrics"
      and ts: "ts = new_series ?base (fst d ! 0) (fst d ! 1) (snd x)
                      (projr (metric_value (snd d) (fst x) (snd x)))"
      unfolding S series_mem by blast
    from ok d x obtain v where v: "metric_value (snd d) (fst x) (snd x) = Inr v"
      unfolding device_ok_def not_isl_iff by blast
    from ts v have f: "metric_type ts = ''custom.googleapis.com/'' @ snd x"
      "metric_labels ts = [(''gpu_type'', fst d ! 0), (''gpu_bus_id'', fst d ! 1)]"
      "map double_value (points ts) = [v]"
      by (simp_all add: new_series_fields)
    define P where "P d x v \<longleftrightarrow>
           metric_type ts = ''custom.googleapis.com/'' @ snd x \<and>
           metric_labels ts = [(''gpu_type'', fst d ! 0), (''gpu_bus_id'', fst d ! 1)] \<and>
           map double_value (points ts) = [v] \<and>
           ((x \<in> set METRICS \<and> map_of (snd d) (fst x) = Some v) \<or>
            (x = ([], MEM_USED_PERCENT) \<and>
             (\<exists>u t. map_of (snd d) ''memory.used'' = Some u \<and>
                    map_of (snd d) ''memory.total'' = Some t \<and>
                    t \<noteq> 0 \<and> v = of_int (py_round (u / t * 100)))))"
      for d :: "string list \<times> metrics" and x :: "string \<times> string" and v :: rat
    from f metric_value_Inr [OF x v] have "P d x v"
      unfolding P_def by - (intro conjI; assumption)
    with d x have "\<exists>d \<in> set vals. \<exists>x \<in> set all_metrics. \<exists>v. P d x v" by blast
    then show "\<exists>d \<in> set vals. \<exists>x \<in> set all_metrics. \<exists>v.
           metric_type ts = ''custom.googleapis.com/'' @ snd x \<and>
           metric_labels ts = [(''gpu_type'', fst d ! 0), (''gpu_bus_id'', fst d ! 1)] \<and>
           map double_value (points ts) = [v] \<and>
           ((x \<in> set METRICS \<and> map_of (snd d) (fst x) = Some v) \<or>
            (x = ([], MEM_USED_PERCENT) \<and>
             (\<exists>u t. map_of (snd d) ''memory.used'' = Some u \<and>
                    map_of (snd d) ''memory.total'' = Some t \<and>
                    t \<noteq> 0 \<and> v = of_int (py_round (u / t * 100)))))"
      unfolding P_def .
  qed
qed


theorem missing_key_fails_explicitly_witness:
  "(\<exists>d \<in> set short_vals. \<exists>k \<in> set (map fst METRICS). map_of (snd d) k = None) \<and>
   (\<exists>e. report_metrics short_vals ''123'' ''europe-west3-c'' ''42'' (3 / 2) PublishOk world0 = Inl e \<and>
        (e = ValueError \<or> e = ZeroDivisionError \<or>
         (\<exists>k \<in> set (map fst METRICS). e = KeyError k))) \<and>
   (\<exists>w'. report_metrics sample_vals ''123'' ''europe-west3-c'' ''42'' (3 / 2) PublishOk world0 = Inr w' \<and>
      (\<forall>d \<in> set sample_vals. \<forall>k \<in> set (map fst METRICS). map_of (snd d) k \<noteq> None) \<and>
      (\<forall>ts \<in> set (call_series (last (backend_calls w'))).
         \<exists>d \<in> set sample_vals. \<exists>x \<in> set all_metrics. \<exists>v.
           metric_type ts = ''custom.googleapis.com/'' @ snd x \<and>
           metric_labels ts = [(''gpu_type'', fst d ! 0), (''gpu_bus_id'', fst d ! 1)] \<and>
           map double_value (points ts) = [v] \<and>
           ((x \<in> set METRICS \<and> map_of (snd d) (fst x) = Some v) \<or>
            (x = ([], MEM_USED_PERCENT) \<and>
             (\<exists>u t. map_of (snd d) ''memory.used'' = Some u \<and>
                    map_of (snd d) ''memory.total'' = Some t \<and>
                    t \<noteq> 0 \<and> v = of_int (py_round (u / t * 100)))))))"
proof -
  have miss: "\<exists>d \<in> set short_vals. \<exists>k \<in> set (map fst METRICS). map_of (snd d) k = None"
    by (simp add: short_vals_def METRICS_def)
  note t1 = missing_key_fails_explicitly [of short_vals "''123''" "''europe-west3-c''" "''42''"
      "3 / 2" PublishOk world0, THEN conjunct1, THEN mp, OF miss]
  from report_metrics_returns [OF sample_vals_ok] obtain w' where
    h: "report_metrics sample_vals ''123'' ''europe-west3-c'' ''42'' (3 / 2) PublishOk world0 = Inr w'"
    by blast
  note t2 = missing_key_fails_explicitly [of sample_vals "''123''" "''europe-west3-c''" "''42''"
      "3 / 2" PublishOk world0, THEN conjunct2, THEN spec, THEN mp, OF h]
  have ex: "\<exists>w'. report_metrics sample_vals ''123'' ''europe-west3-c'' ''42'' (3 / 2) PublishOk world0 = Inr w' \<and>
      (\<forall>d \<in> set sample_vals. \<forall>k \<in> set (map fst METRICS). map_of (snd d) k \<noteq> None) \<and>
      (\<forall>ts \<in> set (call_series (last (backend_calls w'))).
         \<exists>d \<in> set sample_vals. \<exists>x \<in> set all_metrics. \<exists>v.
           metric_type ts = ''custom.googleapis.com/'' @ snd x \<and>
           metric_labels ts = [(''gpu_type'', fst d ! 0), (''gpu_bus_id'', fst d ! 1)] \<and>
           map double_value (points ts) = [v] \<and>
           ((x \<in> set METRICS \<and> map_of (snd d) (fst x) = Some v) \<or>
            (x = ([], MEM_USED_PERCENT) \<and>
             (\<exists>u t. map_of (snd d) ''memory.used'' = Some u \<and>
                    map_of (snd d) ''memory.total'' = Some t \<and>
                    t \<noteq> 0 \<and> v = of_int (py_round (u / t * 100))))))"
    using h t2 [THEN conjunct1] t2 [THEN conjunct2]
    by - (rule exI [of _ w'], intro conjI; assumption)
  from miss t1 ex show ?thesis by - (intro conjI; assumption)
qed




subsection \<open>Malformed lines\<close>





subsection \<open>The loop of \<open>main\<close>\<close>

lemma report_metrics_tool_calls:
  "report_metrics vals p z i now b w = Inr w' \<Longrightarrow> tool_calls w' = tool_calls w"
  using report_metrics_Inr [of vals p z i now b w w'] by simp

lemma main_loop_tool_calls:
  "length (tool_calls w) + (if cs = [] then 0 else 1)
     \<le> length (tool_calls (world_of (main_loop p z i cs w)))"
proof (induction cs arbitrary: w)
  case Nil
  show ?case by simp
next
  case (Cons c cs)
  let ?w1 = "called smi_query_call w"
  have w1: "length (tool_calls ?w1) = length (tool_calls w) + 1"
    by (simp add: called_def)
  show ?case
  proof (cases "get_metrics (probe c)")
    case None
    from main_loop_probe_hangs [OF this] w1 show ?thesis by simp
  next
    case (Some r)
    show ?thesis
    proof (cases r)
      case (Inl e)
      with Some main_loop_probe_raises [of c e p z i cs w] w1 show ?thesis by simp
    next
      case (Inr ms)
      with Some have probe: "get_metrics (probe c) = Some (Inr ms)" by simp
      show ?thesis
      proof (cases "report_metrics ms p z i (clock c) (backend c) ?w1")
        case (Inl e)
        from main_loop_report_raises [OF probe Inl] w1 show ?thesis by simp
      next
        case (Inr w2)
        have "length (tool_calls (sleep FREQUENCY w2)) = length (tool_calls w) + 1"
          using report_metrics_tool_calls [OF Inr] w1 by (simp add: sleep_def)
        with Cons.IH [of "sleep FREQUENCY w2"] main_loop_continues [OF probe Inr, of cs]
        show ?thesis by simp
      qed
    qed
  qed
qed


subsection \<open>A failing submission\<close>

text \<open>
  Claim C8. Take a cycle in which the probe returns a dict, the series are built, and
  the backend call fails with the text \<open>err\<close>. Then the cycle ends normally and the
  loop goes on with the remaining cycles, in a world where two lines have been
  printed to standard error (a header and \<open>err\<close>), the backend has been called once
  in this cycle (no second attempt), the tool has been called once and the process
  has slept \<open>FREQUENCY\<close> seconds. If the environment has a further cycle, the tool is
  called again: the next cycle runs.
\<close>

theorem publish_failure_isolated:
  assumes "get_metrics (probe c) = Some (Inr ms)"
    and "device_loop (base_series p z i (clock c)) ms [] = Inr series"
    and "backend c = PublishFails err"
  shows "\<exists>w'. main_loop p z i (c # cs) w = main_loop p z i cs w' \<and>
      stderr_lines w' = stderr_lines w @ [''Encountered an error:'', err] \<and>
      backend_calls w' = backend_calls w @
        [\<lparr>call_name = ''projects/'' @ p, call_series = series,
          call_outcome = PublishFails err\<rparr>] \<and>
      tool_calls w' = tool_calls w @ [smi_query_call] \<and>
      sleeps w' = sleeps w @ [FREQUENCY] \<and>
      (cs \<noteq> [] \<longrightarrow>
         length (tool_calls w) + 2
           \<le> length (tool_calls (world_of (main_loop p z i (c # cs) w))))"
proof -
  let ?w1 = "called smi_query_call w"
  let ?w2 = "?w1\<lparr>backend_calls := backend_calls ?w1 @
               [\<lparr>call_name = ''projects/'' @ p, call_series = series,
                 call_outcome = backend c\<rparr>],
            stderr_lines := stderr_lines ?w1 @
               (case backend c of PublishOk \<Rightarrow> []
                | PublishFails err \<Rightarrow> [''Encountered an error:'', err])\<rparr>"
  let ?w' = "sleep FREQUENCY ?w2"
  from report_metrics_of_series [OF assms(2)]
  have r: "report_metrics ms p z i (clock c) (backend c) ?w1 = Inr ?w2" .
  from main_loop_continues [OF assms(1) r]
  have step: "main_loop p z i (c # cs) w = main_loop p z i cs ?w'" .
  have f: "stderr_lines ?w' = stderr_lines w @ [''Encountered an error:'', err]"
    "backend_calls ?w' = backend_calls w @
        [\<lparr>call_name = ''projects/'' @ p, call_series = series,
          call_outcome = PublishFails err\<rparr>]"
    "tool_calls ?w' = tool_calls w @ [smi_query_call]"
    "sleeps ?w' = sleeps w @ [FREQUENCY]"
    using assms(3) by (simp_all add: sleep_def called_def)
  have next_cycle: "length (tool_calls w) + 2
      \<le> length (tool_calls (world_of (main_loop p z i (c # cs) w)))" if "cs \<noteq> []"
    using main_loop_tool_calls [of ?w' cs p z i] that f(3) unfolding step by simp
  from step f next_cycle show ?thesis by blast
qed


theorem publish_failure_isolated_witness:
  "get_metrics (probe fail_cycle) = Some (Inr sample_vals) \<and>
   backend fail_cycle = PublishFails ''503 Service Unavailable'' \<and>
   (\<exists>series.
      device_loop (base_series ''123'' ''europe-west3-c'' ''42'' (clock fail_cycle)) sample_vals [] =
        Inr series \<and>
      (\<exists>w'. main_loop ''123'' ''europe-west3-c'' ''42'' (fail_cycle # [good_cycle]) world0 =
             main_loop ''123'' ''europe-west3-c'' ''42'' [good_cycle] w' \<and>
         stderr_lines w' =
           stderr_lines world0 @ [''Encountered an error:'', ''503 Service Unavailable''] \<and>
         backend_calls w' = backend_calls world0 @
           [\<lparr>call_name = ''projects/'' @ ''123'', call_series = series,
             call_outcome = PublishFails ''503 Service Unavailable''\<rparr>] \<and>
         tool_calls w' = tool_calls world0 @ [smi_query_call] \<and>
         sleeps w' = sleeps world0 @ [FREQUENCY] \<and>
         ([good_cycle] \<noteq> [] \<longrightarrow>
            length (tool_calls world0) + 2
              \<le> length (tool_calls (world_of
                    (main_loop ''123'' ''europe-west3-c'' ''42'' (fail_cycle # [good_cycle]) world0))))))"
proof -
  have "\<exists>series. device_loop ts sample_vals [] = Inr series" for ts
    using device_loop_ok_iff sample_vals_ok by blast
  then obtain series where
    dl: "device_loop (base_series ''123'' ''europe-west3-c'' ''42'' (clock fail_cycle)) sample_vals [] =
           Inr series" ..
  have bk: "backend fail_cycle = PublishFails ''503 Service Unavailable''"
    by (simp add: fail_cycle_def)
  note t = publish_failure_isolated [OF probe_samples(4) dl bk, of "[good_cycle]" world0]
  have ex: "\<exists>series.
      device_loop (base_series ''123'' ''europe-west3-c'' ''42'' (clock fail_cycle)) sample_vals [] =
        Inr series \<and>
      (\<exists>w'. main_loop ''123'' ''europe-west3-c'' ''42'' (fail_cycle # [good_cycle]) world0 =
             main_loop ''123'' ''europe-west3-c'' ''42'' [good_cycle] w' \<and>
         stderr_lines w' =
           stderr_lines world0 @ [''Encountered an error:'', ''503 Service Unavailable''] \<and>
         backend_calls w' = backend_calls world0 @
           [\<lparr>call_name = ''projects/'' @ ''123'', call_series = series,
             call_outcome = PublishFails ''503 Service Unavailable''\<rparr>] \<and>
         tool_calls w' = tool_calls world0 @ [smi_query_call] \<and>
         sleeps w' = sleeps world0 @ [FREQUENCY] \<and>
         ([good_cycle] \<noteq> [] \<longrightarrow>
            length (tool_calls world0) + 2
              \<le> length (tool_calls (world_of
                    (main_loop ''123'' ''europe-west3-c'' ''42'' (fail_cycle # [good_cycle]) world0)))))"
    using dl t by - (rule exI [of _ series], intro conjI; assumption)
  from probe_samples(4) bk ex show ?thesis by - (intro conjI; assumption)
qed


subsection \<open>Failures of the other stages\<close>

text \<open>
  Claim C3, as the code has it. In an iteration of the loop, an exception raised by
  \<open>get_metrics\<close>, or raised by \<open>report_metrics\<close> while it builds the series, is caught
  nowhere: \<open>main\<close> ends with it, after the one call of the tool of that iteration, and
  no later cycle runs. Only the backend call is guarded: once the series are built,
  the iteration ends normally and the loop goes on with the remaining cycles,
  whatever the backend answers. The claim that a failure of any of the three stages
  is isolated within its cycle fails for a probe output with a field that is no
  number and for a device whose total memory is zero: see the counterexample.
\<close>

theorem loop_isolates_only_submission:
  "(get_metrics (probe c) = Some (Inl e) \<longrightarrow>
      main_loop p z i (c # cs) w = Uncaught e (called smi_query_call w)) \<and>
   (get_metrics (probe c) = Some (Inr ms) \<and>
    device_loop (base_series p z i (clock c)) ms [] = Inl e \<longrightarrow>
      main_loop p z i (c # cs) w = Uncaught e (called smi_query_call w)) \<and>
   (get_metrics (probe c) = Some (Inr ms) \<and>
    device_loop (base_series p z i (clock c)) ms [] = Inr series \<longrightarrow>
      (\<exists>w'. main_loop p z i (c # cs) w = main_loop p z i cs w' \<and>
         backend_calls w' = backend_calls w @
           [\<lparr>call_name = ''projects/'' @ p, call_series = series,
             call_outcome = backend c\<rparr>]))"
proof (intro conjI impI)
  assume "get_metrics (probe c) = Some (Inl e)"
  then show "main_loop p z i (c # cs) w = Uncaught e (called smi_query_call w)"
    by (rule main_loop_probe_raises)
next
  assume a: "get_metrics (probe c) = Some (Inr ms) \<and>
    device_loop (base_series p z i (clock c)) ms [] = Inl e"
  then have "report_metrics ms p z i (clock c) (backend c) (called smi_query_call w) = Inl e"
    by (simp add: report_metrics_Inl)
  with a show "main_loop p z i (c # cs) w = Uncaught e (called smi_query_call w)"
    by (simp add: main_loop_report_raises)
next
  assume a: "get_metrics (probe c) = Some (Inr ms) \<and>
    device_loop (base_series p z i (clock c)) ms [] = Inr series"
  let ?w1 = "called smi_query_call w"
  let ?w2 = "?w1\<lparr>backend_calls := backend_calls ?w1 @
               [\<lparr>call_name = ''projects/'' @ p, call_series = series,
                 call_outcome = backend c\<rparr>],
            stderr_lines := stderr_lines ?w1 @
               (case backend c of PublishOk \<Rightarrow> []
                | PublishFails err \<Rightarrow> [''Encountered an error:'', err])\<rparr>"
  from a report_metrics_of_series [of p z i "clock c" ms series "backend c" ?w1]
  have r: "report_metrics ms p z i (clock c) (backend c) ?w1 = Inr ?w2" by simp
  from a main_loop_continues [OF _ r, of cs]
  have "main_loop p z i (c # cs) w = main_loop p z i cs (sleep FREQUENCY ?w2)" by simp
  moreover have "backend_calls (sleep FREQUENCY ?w2) = backend_calls w @
           [\<lparr>call_name = ''projects/'' @ p, call_series = series,
             call_outcome = backend c\<rparr>]"
    by (simp add: sleep_def called_def)
  ultimately show "\<exists>w'. main_loop p z i (c # cs) w = main_loop p z i cs w' \<and>
         backend_calls w' = backend_calls w @
           [\<lparr>call_name = ''projects/'' @ p, call_series = series,
             call_outcome = backend c\<rparr>]"
    by blast
qed

theorem loop_isolates_only_submission_witness:
  "get_metrics (probe bad_cycle) = Some (Inl ValueError) \<and>
   main_loop ''123'' ''europe-west3-c'' ''42'' (bad_cycle # [good_cycle]) world0 =
     Uncaught ValueError (called smi_query_call world0) \<and>
   get_metrics (probe mixed_cycle) = Some (Inr mixed_vals) \<and>
   device_loop (base_series ''123'' ''europe-west3-c'' ''42'' (clock mixed_cycle)) mixed_vals [] =
     Inl ZeroDivisionError \<and>
   main_loop ''123'' ''europe-west3-c'' ''42'' (mixed_cycle # [good_cycle]) world0 =
     Uncaught ZeroDivisionError (called smi_query_call world0) \<and>
   get_metrics (probe fail_cycle) = Some (Inr sample_vals) \<and>
   (\<exists>series.
      device_loop (base_series ''123'' ''europe-west3-c'' ''42'' (clock fail_cycle)) sample_vals [] =
        Inr series \<and>
      (\<exists>w'. main_loop ''123'' ''europe-west3-c'' ''42'' (fail_cycle # [good_cycle]) world0 =
             main_loop ''123'' ''europe-west3-c'' ''42'' [good_cycle] w' \<and>
         backend_calls w' = backend_calls world0 @
           [\<lparr>call_name = ''projects/'' @ ''123'', call_series = series,
             call_outcome = backend fail_cycle\<rparr>]))"
proof -
  note t1 = loop_isolates_only_submission [of bad_cycle ValueError "''123''" "''europe-west3-c''"
      "''42''" "[good_cycle]" world0, THEN conjunct1, THEN mp, OF probe_samples(3)]
  have dl2: "device_loop (base_series ''123'' ''europe-west3-c'' ''42'' (clock mixed_cycle)) mixed_vals [] =
     Inl ZeroDivisionError"
    by (rule mixed_vals_raises)
  note t2 = loop_isolates_only_submission [of mixed_cycle ZeroDivisionError "''123''"
      "''europe-west3-c''" "''42''" "[good_cycle]" world0 mixed_vals,
      THEN conjunct2, THEN conjunct1, THEN mp, OF conjI, OF probe_samples(2) dl2]
  have "\<exists>series. device_loop ts sample_vals [] = Inr series" for ts
    using device_loop_ok_iff sample_vals_ok by blast
  then obtain series where
    dl3: "device_loop (base_series ''123'' ''europe-west3-c'' ''42'' (clock fail_cycle)) sample_vals [] =
           Inr series" ..
  note t3 = loop_isolates_only_submission [of fail_cycle _ "''123''" "''europe-west3-c''"
      "''42''" "[good_cycle]" world0 sample_vals series,
      THEN conjunct2, THEN conjunct2, THEN mp, OF conjI, OF probe_samples(4) dl3]
  have ex: "\<exists>series.
      device_loop (base_series ''123'' ''europe-west3-c'' ''42'' (clock fail_cycle)) sample_vals [] =
        Inr series \<and>
      (\<exists>w'. main_loop ''123'' ''europe-west3-c'' ''42'' (fail_cycle # [good_cycle]) world0 =
             main_loop ''123'' ''europe-west3-c'' ''42'' [good_cycle] w' \<and>
         backend_calls w' = backend_calls world0 @
           [\<lparr>call_name = ''projects/'' @ ''123'', call_series = series,
             call_outcome = backend fail_cycle\<rparr>])"
    using dl3 t3 by - (rule exI [of _ series], intro conjI; assumption)
  from probe_samples(3) t1 probe_samples(2) dl2 t2 probe_samples(4) ex
  show ?thesis by - (intro conjI; assumption)
qed

theorem loop_isolates_only_submission_counterexample:
  "main_loop ''123'' ''europe-west3-c'' ''42'' [bad_cycle, good_cycle] world0 =
     Uncaught ValueError (called smi_query_call world0) \<and>
   main_loop ''123'' ''europe-west3-c'' ''42'' [mixed_cycle, good_cycle] world0 =
     Uncaught ZeroDivisionError (called smi_query_call world0) \<and>
   tool_calls (called smi_query_call world0) = [smi_query_call]"
proof -
  have r: "report_metrics mixed_vals p z i now b w = Inl ZeroDivisionError" for p z i now b w
    by (simp add: report_metrics_Inl mixed_vals_raises)
  from main_loop_probe_raises [OF probe_samples(3)]
  have "main_loop ''123'' ''europe-west3-c'' ''42'' [bad_cycle, good_cycle] world0 =
     Uncaught ValueError (called smi_query_call world0)" .
  moreover from main_loop_report_raises [OF probe_samples(2) r]
  have "main_loop ''123'' ''europe-west3-c'' ''42'' [mixed_cycle, good_cycle] world0 =
     Uncaught ZeroDivisionError (called smi_query_call world0)" .
  moreover have "tool_calls (called smi_query_call world0) = [smi_query_call]"
    by (simp add: called_def world0_def)
  ultimately show ?thesis by - (intro conjI; assumption)
qed



subsection \<open>A tool that never exits\<close>

lemma get_metrics_None: "get_metrics tool = None \<longleftrightarrow> tool = Hangs"
  by (cases tool) (simp_all add: get_metrics_def subprocess_run_def smi_query_call_def)

lemma line_loop_error: "line_loop ls data = Inl e \<Longrightarrow> e = ValueError"
proof (induction ls arbitrary: data)
  case Nil
  then show ?case by simp
next
  case (Cons l ls)
  show ?case
  proof (cases "line_ok l")
    case True
    with Cons.prems Cons.IH show ?thesis by (simp only: line_loop_Cons if_True)
  next
    case False
    with Cons.prems show ?thesis by (simp only: line_loop_Cons if_False sum.inject)
  qed
qed

lemma get_metrics_no_timeout: "get_metrics tool \<noteq> Some (Inl TimeoutExpired)"
proof (cases tool)
  case NotFound
  then show ?thesis by (simp add: get_metrics_def subprocess_run_def smi_query_call_def)
next
  case (Exits rc out err)
  show ?thesis
  proof
    assume "get_metrics tool = Some (Inl TimeoutExpired)"
    with Exits have "line_loop (splitlines out) [] = Inl TimeoutExpired"
      by (simp add: get_metrics_Exits)
    from line_loop_error [OF this] show False by simp
  qed
next
  case Hangs
  then show ?thesis by (simp add: get_metrics_def subprocess_run_def smi_query_call_def)
qed

text \<open>
  Claim C4, as the code has it. The call of the tool in \<open>get_metrics\<close> carries no
  timeout. So \<open>get_metrics\<close> fails to return exactly when the tool never exits, it
  never raises TimeoutExpired, and a cycle whose probe never exits blocks \<open>main\<close> in
  that cycle: no later cycle runs. The claim that the probe has a bounded execution
  time fails for the tool that hangs: see the counterexample.
\<close>

theorem probe_without_timeout:
  "run_timeout smi_query_call = None \<and>
   (get_metrics tool = None \<longleftrightarrow> tool = Hangs) \<and>
   get_metrics tool \<noteq> Some (Inl TimeoutExpired) \<and>
   (probe c = Hangs \<longrightarrow> main_loop p z i (c # cs) w = Blocked (called smi_query_call w))"
proof (intro conjI impI)
  show "run_timeout smi_query_call = None" by (simp add: smi_query_call_def)
  show "get_metrics tool = None \<longleftrightarrow> tool = Hangs" by (rule get_metrics_None)
  show "get_metrics tool \<noteq> Some (Inl TimeoutExpired)" by (rule get_metrics_no_timeout)
next
  assume "probe c = Hangs"
  then have "get_metrics (probe c) = None" by (simp add: get_metrics_None)
  then show "main_loop p z i (c # cs) w = Blocked (called smi_query_call w)"
    by (rule main_loop_probe_hangs)
qed

theorem probe_without_timeout_witness:
  "probe hang_cycle = Hangs \<and>
   run_timeout smi_query_call = None \<and>
   (get_metrics Hangs = None \<longleftrightarrow> Hangs = Hangs) \<and>
   get_metrics Hangs \<noteq> Some (Inl TimeoutExpired) \<and>
   main_loop ''123'' ''europe-west3-c'' ''42'' (hang_cycle # [good_cycle]) world0 =
     Blocked (called smi_query_call world0)"
proof -
  have h: "probe hang_cycle = Hangs" by (simp add: hang_cycle_def)
  note t = probe_without_timeout [of Hangs hang_cycle "''123''" "''europe-west3-c''" "''42''"
      "[good_cycle]" world0]
  from h t [THEN conjunct1] t [THEN conjunct2, THEN conjunct1]
    t [THEN conjunct2, THEN conjunct2, THEN conjunct1]
    t [THEN conjunct2, THEN conjunct2, THEN conjunct2, THEN mp, OF h]
  show ?thesis by - (intro conjI; assumption)
qed

theorem probe_without_timeout_counterexample:
  "run_timeout smi_query_call = None \<and>
   get_metrics Hangs = None \<and>
   main_loop ''123'' ''europe-west3-c'' ''42'' [hang_cycle, good_cycle] world0 =
     Blocked (called smi_query_call world0) \<and>
   backend_calls (called smi_query_call world0) = []"
proof -
  have "run_timeout smi_query_call = None" by (simp add: smi_query_call_def)
  moreover have "get_metrics Hangs = None" by (simp add: get_metrics_None)
  moreover from main_loop_probe_hangs [OF probe_samples(5)]
  have "main_loop ''123'' ''europe-west3-c'' ''42'' [hang_cycle, good_cycle] world0 =
     Blocked (called smi_query_call world0)" .
  moreover have "backend_calls (called smi_query_call world0) = []"
    by (simp add: called_def world0_def)
  ultimately show ?thesis by - (intro conjI; assumption)
qed


subsection \<open>The start of \<open>main\<close>\<close>

lemma check_not_found:
  "check_nvidia_smi NotFound w = Some (Inr False, print_stderr msg_not_found w)"
  by (simp add: check_nvidia_smi_def subprocess_run_def)

lemma check_tool_error:
  "rc \<noteq> 0 \<Longrightarrow> check_nvidia_smi (Exits rc out err) w =
     Some (Inr False,
       (if out \<noteq> [] then print_stderr out (print_stderr err (print_stderr msg_tool_error w))
        else print_stderr err (print_stderr msg_tool_error w)))"
  by (simp add: check_nvidia_smi_def subprocess_run_def smi_list_call_def Let_def)

lemma check_no_devices:
  "splitlines out = [] \<Longrightarrow> check_nvidia_smi (Exits 0 out err) w =
     Some (Inr False, print_stderr msg_no_gpus w)"
  by (simp add: check_nvidia_smi_def subprocess_run_def smi_list_call_def Let_def)

lemma check_ok:
  "splitlines out \<noteq> [] \<Longrightarrow> check_nvidia_smi (Exits 0 out err) w = Some (Inr True, w)"
  by (simp add: check_nvidia_smi_def subprocess_run_def smi_list_call_def Let_def)



lemma main_check_fails:
  "check_nvidia_smi (smi_list env) (called smi_list_call world0) = Some (Inr False, w) \<Longrightarrow>
     main env cycles = SysExit 1 w"
  by (simp add: main_def)

lemma main_check_ok:
  "check_nvidia_smi (smi_list env) (called smi_list_call world0) = Some (Inr True, w) \<Longrightarrow>
     main env cycles =
       (case get_instance_params (zone_response env) (id_response env) of
          Inl (ConnectionError err) \<Rightarrow>
            SysExit 2 (print_stderr (''Encountered error:  '' @ err)
                         (print_stderr msg_no_metadata w))
        | Inl e \<Rightarrow> Uncaught e w
        | Inr (project_id, zone, instance_id) \<Rightarrow> main_loop project_id zone instance_id cycles w)"
  by (simp add: main_def)

lemma main_no_metadata:
  assumes "check_nvidia_smi (smi_list env) (called smi_list_call world0) = Some (Inr True, w)"
    and "get_instance_params (zone_response env) (id_response env) = Inl (ConnectionError msg)"
  shows "main env cycles =
     SysExit 2 (print_stderr (''Encountered error:  '' @ msg) (print_stderr msg_no_metadata w))"
  using assms(2) by (simp add: main_check_ok [OF assms(1)])






lemma splitlines_gpu: "splitlines (lines_text [''GPU 0: A100'']) = [''GPU 0: A100'']"
  by (simp add: splitlines_lines_text no_linebreak_samples)

lemma splitlines_empty: "splitlines [] = []"
  by (simp add: splitlines_def)

lemma env_fields:
  "smi_list env_not_found = NotFound"
  "smi_list env_tool_error = Exits 9 [] ''Failed to initialize NVML''"
  "smi_list env_no_devices = Exits 0 [] []"
  "smi_list env_no_metadata = Exits 0 (lines_text [''GPU 0: A100'']) []"
  "smi_list env_short_zone = Exits 0 (lines_text [''GPU 0: A100'']) []"
  "zone_response env_no_metadata = Inl (ConnectionError ''Connection refused'')"
  "zone_response env_short_zone = Inr ''projects/123''"
  by (simp_all add: env_not_found_def env_tool_error_def env_no_devices_def
      env_no_metadata_def env_short_zone_def good_env_def)

lemma startup_world:
  "stderr_lines (called smi_list_call world0) = []"
  "tool_calls (called smi_list_call world0) = [smi_list_call]"
  "backend_calls (called smi_list_call world0) = []"
  "sleeps (called smi_list_call world0) = []"
  by (simp_all add: called_def world0_def)

lemma print_stderr_fields:
  "stderr_lines (print_stderr s w) = stderr_lines w @ [s]"
  "tool_calls (print_stderr s w) = tool_calls w"
  "backend_calls (print_stderr s w) = backend_calls w"
  "sleeps (print_stderr s w) = sleeps w"
  by (simp_all add: print_stderr_def)

subsection \<open>Exit codes of the startup\<close>

text \<open>
  Claim C5, as the code has it. Each failure of the startup ends \<open>main\<close> by \<open>sys.exit\<close>
  before the loop, whatever the cycles of the environment are: only the listing call
  of the tool has been made, the backend has not been called and the process has not
  slept. The tool that is not found, the tool that exits with a non-zero code and the
  listing without a line all exit with code 1, told apart only by what is printed to
  standard error; a connection error of the metadata server exits with code 2. The
  claim of a distinct code for each kind of failure, with at least three codes, fails:
  see the counterexample.
\<close>

theorem startup_failure_exits:
  "(smi_list env = NotFound \<longrightarrow>
      (\<exists>w. main env cycles = SysExit 1 w \<and> stderr_lines w = [msg_not_found] \<and>
           tool_calls w = [smi_list_call] \<and> backend_calls w = [] \<and> sleeps w = [])) \<and>
   (smi_list env = Exits rc out err \<and> rc \<noteq> 0 \<longrightarrow>
      (\<exists>w. main env cycles = SysExit 1 w \<and>
           stderr_lines w = [msg_tool_error, err] @ (if out \<noteq> [] then [out] else []) \<and>
           tool_calls w = [smi_list_call] \<and> backend_calls w = [] \<and> sleeps w = [])) \<and>
   (smi_list env = Exits 0 out err \<and> splitlines out = [] \<longrightarrow>
      (\<exists>w. main env cycles = SysExit 1 w \<and> stderr_lines w = [msg_no_gpus] \<and>
           tool_calls w = [smi_list_call] \<and> backend_calls w = [] \<and> sleeps w = [])) \<and>
   (smi_list env = Exits 0 out err \<and> splitlines out \<noteq> [] \<and>
    get_instance_params (zone_response env) (id_response env) = Inl (ConnectionError msg) \<longrightarrow>
      (\<exists>w. main env cycles = SysExit 2 w \<and>
           stderr_lines w = [msg_no_metadata, ''Encountered error:  '' @ msg] \<and>
           tool_calls w = [smi_list_call] \<and> backend_calls w = [] \<and> sleeps w = []))"
proof (intro conjI impI)
  let ?start = "called smi_list_call world0"
  {
    assume "smi_list env = NotFound"
    then have "check_nvidia_smi (smi_list env) ?start = Some (Inr False, print_stderr msg_not_found ?start)"
      by (simp add: check_not_found)
    from main_check_fails [OF this]
    show "\<exists>w. main env cycles = SysExit 1 w \<and> stderr_lines w = [msg_not_found] \<and>
           tool_calls w = [smi_list_call] \<and> backend_calls w = [] \<and> sleeps w = []"
      by (simp add: print_stderr_fields startup_world)
  next
    assume a: "smi_list env = Exits rc out err \<and> rc \<noteq> 0"
    let ?w = "if out \<noteq> [] then print_stderr out (print_stderr err (print_stderr msg_tool_error ?start))
        else print_stderr err (print_stderr msg_tool_error ?start)"
    from a have "check_nvidia_smi (smi_list env) ?start = Some (Inr False, ?w)"
      by (simp add: check_tool_error)
    from main_check_fails [OF this]
    have "main env cycles = SysExit 1 ?w" .
    moreover have "stderr_lines ?w = [msg_tool_error, err] @ (if out \<noteq> [] then [out] else [])"
      "tool_calls ?w = [smi_list_call]" "backend_calls ?w = []" "sleeps ?w = []"
      by (simp_all add: print_stderr_fields startup_world)
    ultimately show "\<exists>w. main env cycles = SysExit 1 w \<and>
           stderr_lines w = [msg_tool_error, err] @ (if out \<noteq> [] then [out] else []) \<and>
           tool_calls w = [smi_list_call] \<and> backend_calls w = [] \<and> sleeps w = []"
      by blast
  next
    assume "smi_list env = Exits 0 out err \<and> splitlines out = []"
    then have "check_nvidia_smi (smi_list env) ?start = Some (Inr False, print_stderr msg_no_gpus ?start)"
      by (simp add: check_no_devices)
    from main_check_fails [OF this]
    show "\<exists>w. main env cycles = SysExit 1 w \<and> stderr_lines w = [msg_no_gpus] \<and>
           tool_calls w = [smi_list_call] \<and> backend_calls w = [] \<and> sleeps w = []"
      by (simp add: print_stderr_fields startup_world)
  next
    assume a: "smi_list env = Exits 0 out err \<and> splitlines out \<noteq> [] \<and>
      get_instance_params (zone_response env) (id_response env) = Inl (ConnectionError msg)"
    then have "check_nvidia_smi (smi_list env) ?start = Some (Inr True, ?start)"
      by (simp add: check_ok)
    from main_no_metadata [OF this] a
    show "\<exists>w. main env cycles = SysExit 2 w \<and>
           stderr_lines w = [msg_no_metadata, ''Encountered error:  '' @ msg] \<and>
           tool_calls w = [smi_list_call] \<and> backend_calls w = [] \<and> sleeps w = []"
      by (simp add: print_stderr_fields startup_world)
  }
qed


lemma no_metadata_params:
  "get_instance_params (zone_response env_no_metadata) (id_response env_no_metadata) =
     Inl (ConnectionError ''Connection refused'')"
  by (simp add: env_fields get_instance_params_def)

lemma gpu_listed: "splitlines (lines_text [''GPU 0: A100'']) \<noteq> []"
  by (simp add: splitlines_gpu)

theorem startup_failure_exits_witness:
  "smi_list env_not_found = NotFound \<and>
   (\<exists>w. main env_not_found [good_cycle] = SysExit 1 w \<and> stderr_lines w = [msg_not_found] \<and>
        tool_calls w = [smi_list_call] \<and> backend_calls w = [] \<and> sleeps w = []) \<and>
   smi_list env_tool_error = Exits 9 [] ''Failed to initialize NVML'' \<and> (9 :: int) \<noteq> 0 \<and>
   (\<exists>w. main env_tool_error [good_cycle] = SysExit 1 w \<and>
        stderr_lines w = [msg_tool_error, ''Failed to initialize NVML''] @
          (if ([] :: string) \<noteq> [] then [[]] else []) \<and>
        tool_calls w = [smi_list_call] \<and> backend_calls w = [] \<and> sleeps w = []) \<and>
   smi_list env_no_devices = Exits 0 [] [] \<and> splitlines [] = [] \<and>
   (\<exists>w. main env_no_devices [good_cycle] = SysExit 1 w \<and> stderr_lines w = [msg_no_gpus] \<and>
        tool_calls w = [smi_list_call] \<and> backend_calls w = [] \<and> sleeps w = []) \<and>
   smi_list env_no_metadata = Exits 0 (lines_text [''GPU 0: A100'']) [] \<and>
   splitlines (lines_text [''GPU 0: A100'']) \<noteq> [] \<and>
   get_instance_params (zone_response env_no_metadata) (id_response env_no_metadata) =
     Inl (ConnectionError ''Connection refused'') \<and>
   (\<exists>w. main env_no_metadata [good_cycle] = SysExit 2 w \<and>
        stderr_lines w = [msg_no_metadata, ''Encountered error:  '' @ ''Connection refused''] \<and>
        tool_calls w = [smi_list_call] \<and> backend_calls w = [] \<and> sleeps w = [])"
proof -
  have nine: "(9 :: int) \<noteq> 0" by simp
  note t1 = startup_failure_exits [of env_not_found "[good_cycle]",
      THEN conjunct1, THEN mp, OF env_fields(1)]
  note t2 = startup_failure_exits [of env_tool_error "[good_cycle]" 9 "[]" "''Failed to initialize NVML''",
      THEN conjunct2, THEN conjunct1, THEN mp, OF conjI, OF env_fields(2) nine]
  note t3 = startup_failure_exits [of env_no_devices "[good_cycle]" _ "[]" "[]",
      THEN conjunct2, THEN conjunct2, THEN conjunct1, THEN mp, OF conjI,
      OF env_fields(3) splitlines_empty]
  note t4 = startup_failure_exits [of env_no_metadata "[good_cycle]" _ "lines_text [''GPU 0: A100'']" "[]"
      "''Connection refused''",
      THEN conjunct2, THEN conjunct2, THEN conjunct2, THEN mp, OF conjI, OF env_fields(4) conjI,
      OF gpu_listed no_metadata_params]
  from env_fields(1) t1 env_fields(2) nine t2 env_fields(3) splitlines_empty t3
    env_fields(4) gpu_listed no_metadata_params t4
  show ?thesis by - (intro conjI; assumption)
qed

theorem startup_failure_exits_counterexample:
  "main env_not_found [good_cycle] =
     SysExit 1 (print_stderr msg_not_found (called smi_list_call world0)) \<and>
   main env_tool_error [good_cycle] =
     SysExit 1 (print_stderr ''Failed to initialize NVML''
                  (print_stderr msg_tool_error (called smi_list_call world0))) \<and>
   main env_no_devices [good_cycle] =
     SysExit 1 (print_stderr msg_no_gpus (called smi_list_call world0))"
proof -
  have "check_nvidia_smi (smi_list env_not_found) (called smi_list_call world0) =
      Some (Inr False, print_stderr msg_not_found (called smi_list_call world0))"
    by (simp only: env_fields check_not_found)
  from main_check_fails [OF this]
  have a: "main env_not_found [good_cycle] =
     SysExit 1 (print_stderr msg_not_found (called smi_list_call world0))" .
  have "check_nvidia_smi (smi_list env_tool_error) (called smi_list_call world0) =
      Some (Inr False, print_stderr ''Failed to initialize NVML''
                  (print_stderr msg_tool_error (called smi_list_call world0)))"
    by (simp add: env_fields check_tool_error)
  from main_check_fails [OF this]
  have b: "main env_tool_error [good_cycle] =
     SysExit 1 (print_stderr ''Failed to initialize NVML''
                  (print_stderr msg_tool_error (called smi_list_call world0)))" .
  have "check_nvidia_smi (smi_list env_no_devices) (called smi_list_call world0) =
      Some (Inr False, print_stderr msg_no_gpus (called smi_list_call world0))"
    by (simp add: env_fields check_no_devices splitlines_empty)
  from main_check_fails [OF this]
  have c: "main env_no_devices [good_cycle] =
     SysExit 1 (print_stderr msg_no_gpus (called smi_list_call world0))" .
  from a b c show ?thesis by - (intro conjI; assumption)
qed

subsection \<open>Resolving the identity of the host\<close>




end
